theory Spec2Isabelle
  imports Main
begin

section \<open>JavaScript values\<close>

text \<open>
  Strings are byte sequences (UTF-8 for text, the raw bytes for header values). A value
  of type \<open>string | undefined\<close> is a \<open>string option\<close>, \<open>None\<close> being
  \<open>undefined\<close> (or \<open>null\<close>). JavaScript numbers are modelled by their integer
  values: \<open>Date.now()\<close>, \<open>expires_in\<close>, \<open>limit\<close> and HTTP statuses are integers
  in the program; fractions, infinities and the rounding of integers beyond \<open>2^53\<close>
  are not represented. \<open>NaN\<close> is represented where the program can produce it
  (\<open>parseInt\<close>).
\<close>

datatype number = NaN | Num int

datatype json =
    JNull
  | JBool bool
  | JNumber int
  | JString string
  | JArray "json list"
  | JObject "(string \<times> json) list"

text \<open>Truthiness, as tested by \<open>if (x)\<close>, \<open>!x\<close>, \<open>x || y\<close> and \<open>x ? a : b\<close>.\<close>

fun truthy :: "string option \<Rightarrow> bool" where
  "truthy None = False"
| "truthy (Some s) = (s \<noteq> [])"

fun truthy_int :: "int option \<Rightarrow> bool" where
  "truthy_int None = False"
| "truthy_int (Some n) = (n \<noteq> 0)"

fun truthy_json :: "json option \<Rightarrow> bool" where
  "truthy_json None = False"
| "truthy_json (Some JNull) = False"
| "truthy_json (Some (JBool b)) = b"
| "truthy_json (Some (JNumber n)) = (n \<noteq> 0)"
| "truthy_json (Some (JString s)) = (s \<noteq> [])"
| "truthy_json (Some (JArray xs)) = True"
| "truthy_json (Some (JObject kvs)) = True"

text \<open>A template literal \<open>`${x}`\<close> prints an undefined \<open>x\<close> as the word undefined.\<close>

fun template :: "string option \<Rightarrow> string" where
  "template None = ''undefined''"
| "template (Some s) = s"

section \<open>Tenant credentials and their validation\<close>

record TenantCredentials =
  baseUrl :: "string option"
  clientId :: "string option"
  clientSecret :: "string option"
  accessToken :: "string option"

text \<open>
  The errors thrown. \<open>Error\<close>, \<open>AuthenticationError\<close>, \<open>RateLimitError\<close> and
  \<open>LookerApiError\<close> carry the arguments their constructors are given in the source
  (the message of a \<open>LookerApiError\<close> can be any truthy JSON value; a string is a
  \<open>JString\<close>). \<open>NetworkError\<close> is a \<open>fetch\<close> that rejects, \<open>SyntaxError\<close> a body
  that is not JSON, \<open>TypeError\<close> a property read on \<open>null\<close> or \<open>undefined\<close>;
  \<open>IllTyped\<close> is explained at \<open>login_data\<close>.
\<close>

datatype error =
    Error string
  | AuthenticationError string
  | RateLimitError string number
  | LookerApiError json int "string option" "bool option"
  | NetworkError
  | SyntaxError
  | TypeError
  | IllTyped

text \<open>
  \<open>validateCredentials\<close> returns nothing and throws a plain \<open>Error\<close>; the thrown
  error is the left summand.
\<close>

definition validateCredentials :: "TenantCredentials \<Rightarrow> error + unit" where
  "validateCredentials credentials =
     (if \<not> truthy (baseUrl credentials) then
        Inl (Error ''Missing Looker base URL. Provide X-Looker-Base-URL header (e.g., https://company.looker.com).'')
      else if \<not> truthy (accessToken credentials) then
        (if \<not> truthy (clientId credentials) \<or> \<not> truthy (clientSecret credentials) then
           Inl (Error ''Missing credentials. Provide either X-Looker-Access-Token OR both X-Looker-Client-ID and X-Looker-Client-Secret headers.'')
         else Inr ())
      else Inr ())"

text \<open>The empty credentials object \<open>{}\<close>.\<close>

definition no_credentials :: TenantCredentials where
  "no_credentials =
     \<lparr>baseUrl = None, clientId = None, clientSecret = None, accessToken = None\<rparr>"

section \<open>Built-in functions of the platform\<close>

text \<open>
  \<open>parseInt(s, 10)\<close>: leading white space is skipped, one sign is read, then the longest
  run of decimal digits; no digit gives \<open>NaN\<close>. Whatever follows the digits is ignored.
  The white space listed is the white space of JavaScript among the code units below 256,
  which are all a header value can hold.
\<close>

definition is_white_space :: "char \<Rightarrow> bool" where
  "is_white_space c = (c \<in> set [CHR 0x09, CHR 0x0A, CHR 0x0B, CHR 0x0C, CHR 0x0D, CHR 0x20, CHR 0xA0])"

definition is_digit :: "char \<Rightarrow> bool" where
  "is_digit c = (c \<in> set ''0123456789'')"

definition digit_value :: "char \<Rightarrow> int" where
  "digit_value c = int (of_char c) - 48"

definition digits_value :: "string \<Rightarrow> int" where
  "digits_value ds = foldl (\<lambda>acc c. 10 * acc + digit_value c) 0 ds"

definition parseInt :: "string \<Rightarrow> number" where
  "parseInt s =
     (let S = dropWhile is_white_space s;
          sign = (if take 1 S = ''-'' then - 1 else 1);
          S' = (if take 1 S = ''-'' \<or> take 1 S = ''+'' then drop 1 S else S);
          Z = takeWhile is_digit S'
      in if Z = [] then NaN else Num (sign * digits_value Z))"

text \<open>\<open>String(n)\<close> for an integer \<open>n\<close> (of magnitude below \<open>10^21\<close>): its decimal digits.\<close>

fun String_nat :: "nat \<Rightarrow> string" where
  "String_nat n =
     (if n < 10 then [''0123456789'' ! n]
      else String_nat (n div 10) @ [''0123456789'' ! (n mod 10)])"

definition String_number :: "int \<Rightarrow> string" where
  "String_number n = (if n < 0 then ''-'' @ String_nat (nat (- n)) else String_nat (nat n))"

text \<open>
  Percent-encoding, byte by byte. \<open>encodeURIComponent\<close> keeps letters, digits and
  \<open>- _ . ! ~ * ' ( )\<close>; the serializer of \<open>URLSearchParams\<close> keeps letters, digits and
  \<open>* - . _\<close> and writes a space as \<open>+\<close>.
\<close>

definition is_alphanumeric :: "char \<Rightarrow> bool" where
  "is_alphanumeric c =
     (c \<in> set ''ABCDEFGHIJKLMNOPQRSTUVWXYZabcdefghijklmnopqrstuvwxyz0123456789'')"

definition hex_digit :: "nat \<Rightarrow> char" where
  "hex_digit n = ''0123456789ABCDEF'' ! (n mod 16)"

definition percent_encode :: "char \<Rightarrow> string" where
  "percent_encode c = [CHR ''%'', hex_digit (of_char c div 16), hex_digit (of_char c)]"

definition encodeURIComponent :: "string \<Rightarrow> string" where
  "encodeURIComponent s =
     concat (map (\<lambda>c. if is_alphanumeric c \<or> c \<in> set (''-_.!~*()'' @ [CHR 0x27]) then [c]
                       else percent_encode c) s)"

definition form_urlencode :: "string \<Rightarrow> string" where
  "form_urlencode s =
     concat (map (\<lambda>c. if is_alphanumeric c \<or> c \<in> set ''*-._'' then [c]
                       else if c = CHR 0x20 then ''+''
                       else percent_encode c) s)"

text \<open>
  A \<open>URLSearchParams\<close> object is its list of name-value pairs. \<open>set\<close> replaces the value
  of a name that is there and appends otherwise (no name is set twice in this program);
  \<open>toString\<close> joins the encoded pairs with \<open>&\<close>.
\<close>

fun URLSearchParams_set :: "(string \<times> string) list \<Rightarrow> string \<Rightarrow> string \<Rightarrow> (string \<times> string) list" where
  "URLSearchParams_set [] name v = [(name, v)]"
| "URLSearchParams_set ((n, w) # ps) name v =
     (if n = name then (name, v) # filter (\<lambda>p. fst p \<noteq> name) ps
      else (n, w) # URLSearchParams_set ps name v)"

fun URLSearchParams_toString :: "(string \<times> string) list \<Rightarrow> string" where
  "URLSearchParams_toString [] = []"
| "URLSearchParams_toString [(n, v)] = form_urlencode n @ ''='' @ form_urlencode v"
| "URLSearchParams_toString ((n, v) # p # ps) =
     form_urlencode n @ ''='' @ form_urlencode v @ ''&'' @ URLSearchParams_toString (p # ps)"

text \<open>\<open>haystack.includes(needle)\<close>.\<close>

fun str_includes :: "string \<Rightarrow> string \<Rightarrow> bool" where
  "str_includes [] needle = (needle = [])"
| "str_includes (c # cs) needle =
     (take (length needle) (c # cs) = needle \<or> str_includes cs needle)"

text \<open>
  Reading a property of a parsed JSON value, for the property names this program reads
  (\<open>message\<close>, \<open>error\<close>, \<open>access_token\<close>, \<open>expires_in\<close>): an object has the properties
  it lists, any other value but \<open>null\<close> has none of these, and reading a property of
  \<open>null\<close> throws a \<open>TypeError\<close>, which the callers below treat before they read.
\<close>

fun property :: "json \<Rightarrow> string \<Rightarrow> json option" where
  "property (JObject kvs) name = map_of kvs name"
| "property _ name = None"

section \<open>HTTP\<close>

text \<open>
  The second argument of \<open>fetch\<close> (its field \<open>method\<close> is written \<open>method'\<close>). A \<open>headers\<close> object is a finite map from names to
  values; spreading one object over another is \<open>++\<close>.
\<close>

record RequestInit =
  method' :: "string option"
  headers :: "(string \<rightharpoonup> string) option"
  body :: "string option"

text \<open>
  A response: its status, its headers through \<open>headers.get\<close>, and its body as
  \<open>text()\<close> returns it. \<open>ok\<close> is the getter of the Fetch standard.
\<close>

record Response =
  status :: int
  headers_get :: "string \<Rightarrow> string option"
  response_text :: string

definition ok :: "Response \<Rightarrow> bool" where
  "ok response = (200 \<le> status response \<and> status response \<le> 299)"

text \<open>
  The network of one call: \<open>fetch url init\<close> is the response, \<open>None\<close> when the
  promise rejects. \<open>JSON.parse\<close> is a parameter as well, \<open>None\<close> when it throws a
  \<open>SyntaxError\<close>; \<open>response.json()\<close> is \<open>JSON.parse\<close> of the body text.
\<close>

type_synonym fetch = "string \<Rightarrow> RequestInit \<Rightarrow> Response option"

type_synonym JSON_parse = "string \<Rightarrow> json option"

section \<open>The client\<close>

text \<open>
  The fields of \<open>LookerClientImpl\<close>; \<open>this.baseUrl\<close> and \<open>this.accessToken\<close> carry
  the prefix \<open>this\<close> since the credentials have fields of the same names. The token slot
  is \<open>None\<close> for \<open>null\<close>.
\<close>

record LookerClientImpl =
  this_credentials :: TenantCredentials
  this_baseUrl :: string
  this_accessToken :: "string option"
  this_tokenExpiry :: int

text \<open>The constructor; \<open>now\<close> is what \<open>Date.now()\<close> returns in it.\<close>

definition createLookerClient :: "TenantCredentials \<Rightarrow> int \<Rightarrow> LookerClientImpl" where
  "createLookerClient credentials now =
     (let this = \<lparr>this_credentials = credentials,
                  this_baseUrl = template (baseUrl credentials) @ ''/api/4.0'',
                  this_accessToken = None,
                  this_tokenExpiry = 0\<rparr>
      in if truthy (accessToken credentials)
         then this\<lparr>this_accessToken := accessToken credentials, this_tokenExpiry := now + 3600000\<rparr>
         else this)"

subsection \<open>OAuth authentication\<close>

text \<open>The login call of \<open>getAccessToken\<close>: the URL and the second argument of \<open>fetch\<close>.\<close>

definition login_request :: "TenantCredentials \<Rightarrow> string \<times> RequestInit" where
  "login_request credentials =
     (template (baseUrl credentials) @ ''/api/4.0/login'',
      \<lparr>method' = Some ''POST'',
       headers = Some [''Content-Type'' \<mapsto> ''application/x-www-form-urlencoded''],
       body = Some (''client_id='' @ encodeURIComponent (template (clientId credentials)) @
                    ''&client_secret='' @ encodeURIComponent (template (clientSecret credentials)))\<rparr>)"

text \<open>
  The body of a successful login, read at the type the source asserts for it,
  \<open>{ access_token: string; expires_in?: number }\<close>. Outside that type the source goes
  on with JavaScript's coercions, which this embedding does not cover: the model stops
  there with \<open>IllTyped\<close>.
\<close>

fun login_data :: "json \<Rightarrow> (string \<times> int option) option" where
  "login_data (JObject kvs) =
     (case property (JObject kvs) ''access_token'' of
        Some (JString access_token) \<Rightarrow>
          (case property (JObject kvs) ''expires_in'' of
             None \<Rightarrow> Some (access_token, None)
           | Some (JNumber expires_in) \<Rightarrow> Some (access_token, Some expires_in)
           | Some _ \<Rightarrow> None)
      | _ \<Rightarrow> None)"
| "login_data _ = None"

text \<open>
  \<open>getAccessToken\<close> returns the token or the error thrown, the client after the call and
  the calls of \<open>fetch\<close> it made, in order. \<open>now\<close> is \<open>Date.now()\<close> at the test of the
  cached token, \<open>now'\<close> is \<open>Date.now()\<close> where the expiry is recorded.
\<close>

definition getAccessToken ::
  "JSON_parse \<Rightarrow> fetch \<Rightarrow> int \<Rightarrow> int \<Rightarrow> LookerClientImpl \<Rightarrow>
     (error + string) \<times> LookerClientImpl \<times> (string \<times> RequestInit) list" where
  "getAccessToken JSON_parse fetch now now' this =
     (if truthy (this_accessToken this) \<and> now < this_tokenExpiry this - 60000 then
        (Inr (the (this_accessToken this)), this, [])
      else if truthy (accessToken (this_credentials this)) then
        (Inr (the (accessToken (this_credentials this))),
         this\<lparr>this_accessToken := accessToken (this_credentials this),
              this_tokenExpiry := now' + 3600000\<rparr>,
         [])
      else if \<not> truthy (clientId (this_credentials this)) \<or>
              \<not> truthy (clientSecret (this_credentials this)) then
        (Inl (AuthenticationError
           ''No credentials provided. Include X-Looker-Client-ID and X-Looker-Client-Secret headers.''),
         this, [])
      else
        (let login = login_request (this_credentials this) in
         case fetch (fst login) (snd login) of
           None \<Rightarrow> (Inl NetworkError, this, [login])
         | Some response \<Rightarrow>
             if \<not> ok response then
               (Inl (AuthenticationError (''Looker login failed: '' @ response_text response)),
                this, [login])
             else
               (case JSON_parse (response_text response) of
                  None \<Rightarrow> (Inl SyntaxError, this, [login])
                | Some JNull \<Rightarrow> (Inl TypeError, this, [login])
                | Some data \<Rightarrow>
                    (case login_data data of
                       None \<Rightarrow> (Inl IllTyped, this, [login])
                     | Some (access_token, expires_in) \<Rightarrow>
                         (Inr access_token,
                          this\<lparr>this_accessToken := Some access_token,
                               this_tokenExpiry :=
                                 now' + (if truthy_int expires_in then the expires_in else 3600) * 1000\<rparr>,
                          [login])))))"

subsection \<open>HTTP request helper\<close>

definition getAuthHeaders ::
  "JSON_parse \<Rightarrow> fetch \<Rightarrow> int \<Rightarrow> int \<Rightarrow> LookerClientImpl \<Rightarrow>
     (error + (string \<rightharpoonup> string)) \<times> LookerClientImpl \<times> (string \<times> RequestInit) list" where
  "getAuthHeaders JSON_parse fetch now now' this =
     (case getAccessToken JSON_parse fetch now now' this of
        (Inl e, this', sent) \<Rightarrow> (Inl e, this', sent)
      | (Inr token, this', sent) \<Rightarrow>
          (Inr [''Authorization'' \<mapsto> ''Bearer '' @ token, ''Content-Type'' \<mapsto> ''application/json''],
           this', sent))"

text \<open>What \<open>request\<close> returns: \<open>undefined\<close>, the body text, or the parsed JSON.\<close>

datatype response_value = Undefined | Text string | Json json

text \<open>
  The message of the error for a non-2xx status other than 429, 401, 403 and 404 (the
  \<open>try\<close> and \<open>catch\<close> of \<open>request\<close>). A body that does not parse, or parses to
  \<open>null\<close> (reading \<open>null.message\<close> throws), is handled by the \<open>catch\<close>.
\<close>

definition error_message :: "JSON_parse \<Rightarrow> string \<Rightarrow> int \<Rightarrow> json" where
  "error_message JSON_parse errorBody response_status =
     (let message = JString (''API error: '' @ String_number response_status);
          caught = (if errorBody \<noteq> [] then JString errorBody else message)
      in case JSON_parse errorBody of
           None \<Rightarrow> caught
         | Some JNull \<Rightarrow> caught
         | Some errorJson \<Rightarrow>
             if truthy_json (property errorJson ''message'') then the (property errorJson ''message'')
             else if truthy_json (property errorJson ''error'') then the (property errorJson ''error'')
             else message)"

text \<open>The value of \<open>response.headers.get('Content-Type') || ''\<close>.\<close>

definition contentType :: "Response \<Rightarrow> string" where
  "contentType response = (case headers_get response ''Content-Type'' of None \<Rightarrow> [] | Some v \<Rightarrow> v)"

text \<open>
  The part of \<open>request\<close> after \<open>fetch\<close> has answered: the classification of the
  response, with the client as it is left.
\<close>

definition handle_response ::
  "JSON_parse \<Rightarrow> LookerClientImpl \<Rightarrow> Response \<Rightarrow> (error + response_value) \<times> LookerClientImpl" where
  "handle_response JSON_parse this response =
     (if status response = 429 then
        (let retryAfter = headers_get response ''Retry-After'' in
         (Inl (RateLimitError ''Rate limit exceeded''
                 (if truthy retryAfter then parseInt (the retryAfter) else Num 60)),
          this))
      else if status response = 401 \<or> status response = 403 then
        (Inl (AuthenticationError ''Authentication failed. Check your API credentials.''),
         this\<lparr>this_accessToken := None, this_tokenExpiry := 0\<rparr>)
      else if status response = 404 then
        (Inl (LookerApiError (JString (''Not found: '' @ response_text response)) 404
                (Some ''NOT_FOUND'') (Some False)),
         this)
      else if \<not> ok response then
        (Inl (LookerApiError (error_message JSON_parse (response_text response) (status response))
                (status response) None None),
         this)
      else if status response = 204 then (Inr Undefined, this)
      else
        (if \<not> str_includes (contentType response) ''application/json'' then
           (Inr (Text (response_text response)), this)
         else
           (case JSON_parse (response_text response) of
              None \<Rightarrow> (Inl SyntaxError, this)
            | Some v \<Rightarrow> (Inr (Json v), this))))"

text \<open>The URL and the second argument of the call \<open>request\<close> makes, given the auth headers.\<close>

definition api_request ::
  "LookerClientImpl \<Rightarrow> (string \<rightharpoonup> string) \<Rightarrow> string \<Rightarrow> RequestInit \<Rightarrow> string \<times> RequestInit" where
  "api_request this auth endpoint options =
     (this_baseUrl this @ endpoint,
      options\<lparr>headers := Some (auth ++ (case headers options of None \<Rightarrow> Map.empty | Some h \<Rightarrow> h))\<rparr>)"

definition request ::
  "JSON_parse \<Rightarrow> fetch \<Rightarrow> int \<Rightarrow> int \<Rightarrow> LookerClientImpl \<Rightarrow> string \<Rightarrow> RequestInit \<Rightarrow>
     (error + response_value) \<times> LookerClientImpl \<times> (string \<times> RequestInit) list" where
  "request JSON_parse fetch now now' this endpoint options =
     (case getAuthHeaders JSON_parse fetch now now' this of
        (Inl e, this', sent) \<Rightarrow> (Inl e, this', sent)
      | (Inr auth, this', sent) \<Rightarrow>
          (let call = api_request this' auth endpoint options in
           case fetch (fst call) (snd call) of
             None \<Rightarrow> (Inl NetworkError, this', sent @ [call])
           | Some response \<Rightarrow>
               (case handle_response JSON_parse this' response of
                  (result, this'') \<Rightarrow> (result, this'', sent @ [call]))))"

text \<open>The default \<open>options = {}\<close>.\<close>

definition no_options :: RequestInit where
  "no_options = \<lparr>method' = None, headers = None, body = None\<rparr>"

subsection \<open>List operations\<close>

text \<open>The field \<open>fields\<close> is written \<open>fields'\<close>.\<close>

record PaginationParams =
  limit :: "int option"
  offset :: "int option"
  fields' :: "string option"

record PaginatedResponse =
  items :: response_value
  count :: "nat option"
  hasMore :: bool

text \<open>
  \<open>x.length\<close> for what \<open>request\<close> returned: the number of elements of an array (the
  declared type of the list responses), the length of a string (counted in bytes here,
  which is JavaScript's count for ASCII text), \<open>undefined\<close> for other values, and a
  \<open>TypeError\<close> on \<open>undefined\<close> and \<open>null\<close>.
\<close>

fun js_length :: "response_value \<Rightarrow> error + nat option" where
  "js_length Undefined = Inl TypeError"
| "js_length (Text s) = Inr (Some (length s))"
| "js_length (Json JNull) = Inl TypeError"
| "js_length (Json (JString s)) = Inr (Some (length s))"
| "js_length (Json (JArray xs)) = Inr (Some (length xs))"
| "js_length (Json v) = Inr None"

text \<open>
  \<open>listLooks\<close>, \<open>listDashboards\<close>, \<open>listFolders\<close> and \<open>listUsers\<close> have the same
  body but for the path they call; \<open>list_paginated\<close> is that body.
\<close>

definition pagination_query :: "PaginationParams option \<Rightarrow> (string \<times> string) list" where
  "pagination_query params =
     (let queryParams = [];
          queryParams = (if truthy_int (Option.bind params limit)
                         then URLSearchParams_set queryParams ''limit''
                                (String_number (the (Option.bind params limit)))
                         else queryParams);
          queryParams = (if truthy_int (Option.bind params offset)
                         then URLSearchParams_set queryParams ''offset''
                                (String_number (the (Option.bind params offset)))
                         else queryParams);
          queryParams = (if truthy (Option.bind params fields')
                         then URLSearchParams_set queryParams ''fields''
                                (the (Option.bind params fields'))
                         else queryParams)
      in queryParams)"

definition list_paginated ::
  "string \<Rightarrow> JSON_parse \<Rightarrow> fetch \<Rightarrow> int \<Rightarrow> int \<Rightarrow> LookerClientImpl \<Rightarrow> PaginationParams option \<Rightarrow>
     (error + PaginatedResponse) \<times> LookerClientImpl \<times> (string \<times> RequestInit) list" where
  "list_paginated path JSON_parse fetch now now' this params =
     (case request JSON_parse fetch now now' this
             (path @ ''?'' @ URLSearchParams_toString (pagination_query params)) no_options of
        (Inl e, this', sent) \<Rightarrow> (Inl e, this', sent)
      | (Inr looks, this', sent) \<Rightarrow>
          (case js_length looks of
             Inl e \<Rightarrow> (Inl e, this', sent)
           | Inr len \<Rightarrow>
               (Inr \<lparr>items = looks,
                     count = len,
                     hasMore = (case len of
                                  None \<Rightarrow> False
                                | Some n \<Rightarrow>
                                    int n = (if truthy_int (Option.bind params limit)
                                             then the (Option.bind params limit) else 100))\<rparr>,
                this', sent)))"

definition listLooks where "listLooks = list_paginated ''/looks''"

definition listDashboards where "listDashboards = list_paginated ''/dashboards''"

definition listFolders where "listFolders = list_paginated ''/folders''"

definition listUsers where "listUsers = list_paginated ''/users''"

text \<open>The parameter object of \<open>listScheduledPlans\<close>.\<close>

record ScheduledPlanParams =
  user_id :: "string option"
  look_id :: "string option"
  dashboard_id :: "string option"

definition listScheduledPlans ::
  "JSON_parse \<Rightarrow> fetch \<Rightarrow> int \<Rightarrow> int \<Rightarrow> LookerClientImpl \<Rightarrow> ScheduledPlanParams option \<Rightarrow>
     (error + response_value) \<times> LookerClientImpl \<times> (string \<times> RequestInit) list" where
  "listScheduledPlans JSON_parse fetch now now' this params =
     (let queryParams = [];
          queryParams = (if truthy (Option.bind params user_id)
                         then URLSearchParams_set queryParams ''user_id''
                                (the (Option.bind params user_id))
                         else queryParams)
      in request JSON_parse fetch now now' this
           (''/scheduled_plans?'' @ URLSearchParams_toString queryParams) no_options)"

subsection \<open>Sequences of calls on one client\<close>

text \<open>
  A call on the client with the network and the clock it meets: a token request, or a
  \<open>request\<close> (which every public operation of the client comes down to). \<open>perform\<close>
  is the client after the call, \<open>token_fetches\<close> the calls of \<open>fetch\<close> that the token
  acquisition of the call makes, \<open>logins\<close> those of a whole sequence.
\<close>

datatype call =
    GetAccessToken fetch int int
  | Request fetch int int string RequestInit

fun perform :: "JSON_parse \<Rightarrow> LookerClientImpl \<Rightarrow> call \<Rightarrow> LookerClientImpl" where
  "perform JSON_parse this (GetAccessToken fetch now now') =
     fst (snd (getAccessToken JSON_parse fetch now now' this))"
| "perform JSON_parse this (Request fetch now now' endpoint options) =
     fst (snd (request JSON_parse fetch now now' this endpoint options))"

fun token_fetches :: "JSON_parse \<Rightarrow> LookerClientImpl \<Rightarrow> call \<Rightarrow> (string \<times> RequestInit) list" where
  "token_fetches JSON_parse this (GetAccessToken fetch now now') =
     snd (snd (getAccessToken JSON_parse fetch now now' this))"
| "token_fetches JSON_parse this (Request fetch now now' endpoint options) =
     snd (snd (getAccessToken JSON_parse fetch now now' this))"

fun logins :: "JSON_parse \<Rightarrow> LookerClientImpl \<Rightarrow> call list \<Rightarrow> (string \<times> RequestInit) list" where
  "logins JSON_parse this [] = []"
| "logins JSON_parse this (c # cs) =
     token_fetches JSON_parse this c @ logins JSON_parse (perform JSON_parse this c) cs"

definition after_calls :: "JSON_parse \<Rightarrow> LookerClientImpl \<Rightarrow> call list \<Rightarrow> LookerClientImpl" where
  "after_calls JSON_parse this cs = foldl (perform JSON_parse) this cs"

subsection \<open>What a call meets\<close>

text \<open>
  The response that \<open>request\<close> receives for its own call: \<open>None\<close> when the token
  acquisition throws (no call is made) or when \<open>fetch\<close> rejects.
\<close>

definition received ::
  "JSON_parse \<Rightarrow> fetch \<Rightarrow> int \<Rightarrow> int \<Rightarrow> LookerClientImpl \<Rightarrow> string \<Rightarrow> RequestInit \<Rightarrow> Response option" where
  "received JSON_parse fetch now now' this endpoint options =
     (case getAuthHeaders JSON_parse fetch now now' this of
        (Inl e, this', sent) \<Rightarrow> None
      | (Inr auth, this', sent) \<Rightarrow>
          fetch (fst (api_request this' auth endpoint options))
                (snd (api_request this' auth endpoint options)))"

section \<open>Example data\<close>

text \<open>Credentials with a pre-issued token, and OAuth client credentials.\<close>

definition token_credentials :: TenantCredentials where
  "token_credentials =
     \<lparr>baseUrl = Some ''https://x.looker.com'', clientId = None, clientSecret = None,
      accessToken = Some ''tok''\<rparr>"

definition oauth_credentials :: TenantCredentials where
  "oauth_credentials =
     \<lparr>baseUrl = Some ''https://x.looker.com'', clientId = Some ''a'', clientSecret = Some ''b'',
      accessToken = None\<rparr>"

text \<open>A network that answers every call with the same response.\<close>

definition always :: "Response \<Rightarrow> fetch" where
  "always response = (\<lambda>url init. Some response)"

text \<open>Bodies of login responses, and \<open>JSON.parse\<close> on the bodies of the examples.\<close>

definition login_body :: string where
  \<open>login_body = ''{"access_token":"T1","expires_in":10}''\<close>

definition login_body_zero :: string where
  \<open>login_body_zero = ''{"access_token":"T1","expires_in":0}''\<close>

definition login_body_empty :: string where
  \<open>login_body_empty = ''{"access_token":""}''\<close>

definition login_body_hour :: string where
  \<open>login_body_hour = ''{"access_token":"T1","expires_in":3600}''\<close>

definition error_body :: string where
  \<open>error_body = ''{"message":"Query failed"}''\<close>

definition one_look_body :: string where
  \<open>one_look_body = ''[{"id":"1"}]''\<close>

definition parse_examples :: JSON_parse where
  "parse_examples s =
     (if s = login_body then
        Some (JObject [(''access_token'', JString ''T1''), (''expires_in'', JNumber 10)])
      else if s = login_body_zero then
        Some (JObject [(''access_token'', JString ''T1''), (''expires_in'', JNumber 0)])
      else if s = login_body_empty then
        Some (JObject [(''access_token'', JString [])])
      else if s = login_body_hour then
        Some (JObject [(''access_token'', JString ''T1''), (''expires_in'', JNumber 3600)])
      else if s = error_body then
        Some (JObject [(''message'', JString ''Query failed'')])
      else if s = one_look_body then
        Some (JArray [JObject [(''id'', JString ''1'')]])
      else if s = ''{}'' then Some (JObject [])
      else if s = ''[]'' then Some (JArray [])
      else None)"

text \<open>A network with a login endpoint that answers 200 with the body \<open>b\<close>, and
  \<open>response\<close> for every other call.\<close>

definition login_then :: "string \<Rightarrow> Response \<Rightarrow> fetch" where
  "login_then b response =
     (\<lambda>url init. if url = ''https://x.looker.com/api/4.0/login''
                 then Some \<lparr>status = 200, headers_get = [''Content-Type'' \<mapsto> ''application/json''],
                            response_text = b\<rparr>
                 else Some response)"

text \<open>A 429 response whose \<open>Retry-After\<close> is an HTTP date, and 429 responses with a
  number of seconds and with no such header.\<close>

definition http_date_429 :: Response where
  "http_date_429 =
     \<lparr>status = 429, headers_get = [''Retry-After'' \<mapsto> ''Wed, 21 Oct 2015 07:28:00 GMT''],
      response_text = []\<rparr>"

definition seconds_429 :: Response where
  "seconds_429 = \<lparr>status = 429, headers_get = [''Retry-After'' \<mapsto> ''30''], response_text = []\<rparr>"

definition bare_429 :: Response where
  "bare_429 = \<lparr>status = 429, headers_get = Map.empty, response_text = []\<rparr>"

text \<open>Other responses of the examples.\<close>

definition csv_200 :: Response where
  "csv_200 =
     \<lparr>status = 200, headers_get = [''Content-Type'' \<mapsto> ''text/csv''], response_text = ''id,title''\<rparr>"

definition empty_204 :: Response where
  "empty_204 = \<lparr>status = 204, headers_get = Map.empty, response_text = []\<rparr>"

definition empty_list_200 :: Response where
  "empty_list_200 =
     \<lparr>status = 200, headers_get = [''Content-Type'' \<mapsto> ''application/json''], response_text = ''[]''\<rparr>"

definition one_look_200 :: Response where
  "one_look_200 =
     \<lparr>status = 200, headers_get = [''Content-Type'' \<mapsto> ''application/json''],
      response_text = one_look_body\<rparr>"

definition unauthorized_401 :: Response where
  "unauthorized_401 = \<lparr>status = 401, headers_get = Map.empty, response_text = []\<rparr>"

definition empty_object_500 :: Response where
  "empty_object_500 =
     \<lparr>status = 500, headers_get = [''Content-Type'' \<mapsto> ''application/json''], response_text = ''{}''\<rparr>"

definition message_500 :: Response where
  "message_500 =
     \<lparr>status = 500, headers_get = [''Content-Type'' \<mapsto> ''application/json''],
      response_text = error_body\<rparr>"

section \<open>The claimed error message\<close>

text \<open>
  The message of the generic API error as the specification words it, a single chain:
  the \<open>message\<close> field of the JSON body, else its \<open>error\<close> field, else the raw body
  text, else the generic string. It is compared with \<open>error_message\<close> below.
\<close>

definition claimed_error_message :: "JSON_parse \<Rightarrow> string \<Rightarrow> int \<Rightarrow> json" where
  "claimed_error_message JSON_parse errorBody response_status =
     (let parsed = (case JSON_parse errorBody of None \<Rightarrow> JNull | Some errorJson \<Rightarrow> errorJson) in
      if truthy_json (property parsed ''message'') then the (property parsed ''message'')
      else if truthy_json (property parsed ''error'') then the (property parsed ''error'')
      else if errorBody \<noteq> [] then JString errorBody
      else JString (''API error: '' @ String_number response_status))"

section \<open>Clients with a supplied token\<close>

text \<open>
  The invariant of a client whose credentials carry an access token: the token slot is
  empty or holds the supplied token.
\<close>

definition supplied :: "LookerClientImpl \<Rightarrow> bool" where
  "supplied this =
     (truthy (accessToken (this_credentials this)) \<and>
      (this_accessToken this = None \<or> this_accessToken this = accessToken (this_credentials this)))"

section \<open>Credential validation\<close>

text \<open>
  C5. Validation is a function of the credentials alone (no state is read or written: it
  is a pure function of its argument). It throws exactly when \<open>baseUrl\<close> is unset, or
  when the access token is unset and the client id and the client secret are not both
  set, a field being set when it holds a non-empty string. So \<open>validate({})\<close> and
  \<open>validate({baseUrl})\<close> throw, \<open>validate({baseUrl, accessToken})\<close> returns, and
  \<open>validate({baseUrl, clientId})\<close> throws.
\<close>

theorem validateCredentials_fails_iff:
  "(isl (validateCredentials c) \<longleftrightarrow>
      (\<not> truthy (baseUrl c) \<or>
       (\<not> truthy (accessToken c) \<and> \<not> (truthy (clientId c) \<and> truthy (clientSecret c)))))
   \<and> isl (validateCredentials no_credentials)
   \<and> isl (validateCredentials (no_credentials\<lparr>baseUrl := Some b\<rparr>))
   \<and> (b \<noteq> [] \<and> t \<noteq> [] \<longrightarrow>
        validateCredentials (no_credentials\<lparr>baseUrl := Some b, accessToken := Some t\<rparr>) = Inr ())
   \<and> isl (validateCredentials (no_credentials\<lparr>baseUrl := Some b, clientId := Some i\<rparr>))"
  by (simp add: validateCredentials_def no_credentials_def)

theorem validateCredentials_fails_iff_example:
  "isl (validateCredentials no_credentials)
   \<and> isl (validateCredentials (no_credentials\<lparr>baseUrl := Some ''https://x.looker.com''\<rparr>))
   \<and> validateCredentials
        (no_credentials\<lparr>baseUrl := Some ''https://x.looker.com'', accessToken := Some ''tok''\<rparr>) = Inr ()
   \<and> isl (validateCredentials
        (no_credentials\<lparr>baseUrl := Some ''https://x.looker.com'', clientId := Some ''a''\<rparr>))"
  using validateCredentials_fails_iff [of no_credentials "''https://x.looker.com''" "''tok''" "''a''"]
  by (simp add: no_credentials_def)

section \<open>The client keeps its credentials\<close>

lemma getAccessToken_keeps:
  "this_credentials (fst (snd (getAccessToken P f n n' this))) = this_credentials this \<and>
   this_baseUrl (fst (snd (getAccessToken P f n n' this))) = this_baseUrl this"
  by (simp add: getAccessToken_def Let_def split: option.split json.split prod.split)

lemma handle_response_keeps:
  "this_credentials (snd (handle_response P this r)) = this_credentials this \<and>
   this_baseUrl (snd (handle_response P this r)) = this_baseUrl this"
  by (simp add: handle_response_def Let_def split: option.split)

lemma request_state:
  "fst (snd (request P f n n' this e opts)) =
     (case getAccessToken P f n n' this of
        (Inl err, this', sent) \<Rightarrow> this'
      | (Inr token, this', sent) \<Rightarrow>
          (case f (fst (api_request this'
                          [''Authorization'' \<mapsto> ''Bearer '' @ token,
                           ''Content-Type'' \<mapsto> ''application/json''] e opts))
                  (snd (api_request this'
                          [''Authorization'' \<mapsto> ''Bearer '' @ token,
                           ''Content-Type'' \<mapsto> ''application/json''] e opts)) of
             None \<Rightarrow> this'
           | Some r \<Rightarrow> snd (handle_response P this' r)))"
  by (simp add: request_def getAuthHeaders_def Let_def split: prod.split sum.split option.split)

lemma request_keeps:
  "this_credentials (fst (snd (request P f n n' this e opts))) = this_credentials this \<and>
   this_baseUrl (fst (snd (request P f n n' this e opts))) = this_baseUrl this"
  unfolding request_state
  using getAccessToken_keeps [of P f n n' this]
  by (auto split: prod.split sum.split option.split simp: handle_response_keeps)

lemma perform_keeps:
  "this_credentials (perform P this c) = this_credentials this \<and>
   this_baseUrl (perform P this c) = this_baseUrl this"
  by (cases c) (simp_all add: getAccessToken_keeps request_keeps)

lemma after_calls_keeps:
  "this_credentials (after_calls P this cs) = this_credentials this \<and>
   this_baseUrl (after_calls P this cs) = this_baseUrl this"
  unfolding after_calls_def
  by (induction cs arbitrary: this) (simp_all add: perform_keeps)

section \<open>From the response received to the result of \<open>request\<close>\<close>

lemma request_received:
  assumes "received P f n n' this e opts = Some r"
  shows "fst (request P f n n' this e opts) =
           fst (handle_response P (fst (snd (getAccessToken P f n n' this))) r)"
    and "fst (snd (request P f n n' this e opts)) =
           snd (handle_response P (fst (snd (getAccessToken P f n n' this))) r)"
  using assms
  by (auto simp: received_def request_def getAuthHeaders_def Let_def
           split: prod.splits sum.splits option.splits)

lemma received_token_always:
  "received P (always r) n n' (createLookerClient token_credentials t) e opts = Some r"
  by (simp add: received_def getAuthHeaders_def getAccessToken_def createLookerClient_def
        token_credentials_def always_def)

section \<open>Rate limiting\<close>

lemma parseInt_http_date: "parseInt ''Wed, 21 Oct 2015 07:28:00 GMT'' = NaN"
  by (simp add: parseInt_def is_white_space_def is_digit_def)

lemma parseInt_30: "parseInt ''30'' = Num 30"
  by (simp add: parseInt_def is_white_space_def is_digit_def digits_value_def digit_value_def)

text \<open>
  Every 429 response makes \<open>request\<close> throw a \<open>RateLimitError\<close>; its number of seconds
  is 60 when the header is absent or empty, and otherwise whatever \<open>parseInt\<close> makes of
  the header.
\<close>

lemma request_429:
  assumes "received P f n n' this e opts = Some r" and "status r = 429"
  shows "fst (request P f n n' this e opts) =
           Inl (RateLimitError ''Rate limit exceeded''
                  (case headers_get r ''Retry-After'' of
                     None \<Rightarrow> Num 60
                   | Some v \<Rightarrow> if v = [] then Num 60 else parseInt v))"
  using assms by (simp add: request_received handle_response_def split: option.split)

lemma request_429_seconds:
  "fst (request parse_examples (always seconds_429) 1000 1000
          (createLookerClient token_credentials 0) ''/user'' no_options)
     = Inl (RateLimitError ''Rate limit exceeded'' (Num 30))"
  using request_429 [OF received_token_always, of seconds_429]
  by (simp add: seconds_429_def parseInt_30)

lemma request_429_no_header:
  "fst (request parse_examples (always bare_429) 1000 1000
          (createLookerClient token_credentials 0) ''/user'' no_options)
     = Inl (RateLimitError ''Rate limit exceeded'' (Num 60))"
  using request_429 [OF received_token_always, of bare_429]
  by (simp add: bare_429_def)

text \<open>
  C1. The claim asks for 60 seconds whenever the \<open>Retry-After\<close> header cannot be parsed.
  The header may be an HTTP date; on a 429 response with
  \<open>Retry-After: Wed, 21 Oct 2015 07:28:00 GMT\<close> the \<open>RateLimitError\<close> that \<open>request\<close>
  throws carries \<open>NaN\<close>, not 60: the default is taken only when the header is absent
  or empty.
\<close>

theorem request_429_unparseable_retry_after:
  assumes "received P f n n' this e opts = Some r" and "status r = 429"
    and "headers_get r ''Retry-After'' = Some ''Wed, 21 Oct 2015 07:28:00 GMT''"
  shows "fst (request P f n n' this e opts) = Inl (RateLimitError ''Rate limit exceeded'' NaN)"
  using assms by (simp add: request_429 parseInt_http_date)

theorem request_429_unparseable_retry_after_example:
  "fst (request parse_examples (always http_date_429) 1000 1000
          (createLookerClient token_credentials 0) ''/user'' no_options)
     = Inl (RateLimitError ''Rate limit exceeded'' NaN)"
  using request_429_unparseable_retry_after
          [of parse_examples "always http_date_429" 1000 1000
              "createLookerClient token_credentials 0" "''/user''" no_options http_date_429]
  by (simp add: received_token_always) (simp add: http_date_429_def)

section \<open>Examples evaluated\<close>

lemma parse_examples_values:
  "parse_examples login_body =
     Some (JObject [(''access_token'', JString ''T1''), (''expires_in'', JNumber 10)])"
  "parse_examples login_body_zero =
     Some (JObject [(''access_token'', JString ''T1''), (''expires_in'', JNumber 0)])"
  "parse_examples login_body_empty = Some (JObject [(''access_token'', JString [])])"
  "parse_examples login_body_hour =
     Some (JObject [(''access_token'', JString ''T1''), (''expires_in'', JNumber 3600)])"
  "parse_examples error_body = Some (JObject [(''message'', JString ''Query failed'')])"
  "parse_examples one_look_body = Some (JArray [JObject [(''id'', JString ''1'')]])"
  "parse_examples ''{}'' = Some (JObject [])"
  "parse_examples ''[]'' = Some (JArray [])"
  by (simp_all add: parse_examples_def login_body_def login_body_zero_def login_body_empty_def
        login_body_hour_def error_body_def one_look_body_def)

lemma String_number_500: "String_number 500 = ''500''"
  by (simp add: String_number_def)

lemma getAccessToken_oauth_example:
  "getAccessToken parse_examples (login_then login_body_hour r) n n'
     (createLookerClient oauth_credentials t) =
     (Inr ''T1'',
      (createLookerClient oauth_credentials t)
        \<lparr>this_accessToken := Some ''T1'', this_tokenExpiry := n' + 3600000\<rparr>,
      [login_request oauth_credentials])"
  by (simp add: getAccessToken_def createLookerClient_def oauth_credentials_def login_request_def
        login_then_def ok_def parse_examples_values Let_def)

lemma received_oauth_example:
  "received parse_examples (login_then login_body_hour r) n n'
     (createLookerClient oauth_credentials t) ''/user'' no_options = Some r"
  by (simp add: received_def getAuthHeaders_def getAccessToken_oauth_example)
     (simp add: api_request_def createLookerClient_def oauth_credentials_def login_then_def)

section \<open>Success responses\<close>

text \<open>
  C7. A 204 response makes \<open>request\<close> return \<open>undefined\<close>, and any other 2xx response
  whose content type does not contain \<open>application/json\<close> makes it return the body text
  as it is; \<open>JSON.parse\<close> plays no part (the statement holds for a parser that
  always throws).
\<close>

theorem request_204_and_raw_text:
  assumes "received P f n n' this e opts = Some r"
  shows "(status r = 204 \<longrightarrow> fst (request P f n n' this e opts) = Inr Undefined) \<and>
         (ok r \<and> status r \<noteq> 204 \<and> \<not> str_includes (contentType r) ''application/json'' \<longrightarrow>
            fst (request P f n n' this e opts) = Inr (Text (response_text r)))"
  using assms by (simp add: request_received handle_response_def ok_def)

theorem request_204_and_raw_text_example:
  "fst (request (\<lambda>s. None) (always empty_204) 1000 1000
          (createLookerClient token_credentials 0) ''/looks/1'' no_options) = Inr Undefined \<and>
   ok csv_200 \<and> status csv_200 \<noteq> 204 \<and>
   \<not> str_includes (contentType csv_200) ''application/json'' \<and>
   fst (request (\<lambda>s. None) (always csv_200) 1000 1000
          (createLookerClient token_credentials 0) ''/looks/1/run/csv?'' no_options)
     = Inr (Text ''id,title'')"
  using request_204_and_raw_text
          [of "\<lambda>s. None" "always empty_204" 1000 1000 "createLookerClient token_credentials 0"
              "''/looks/1''" no_options empty_204]
        request_204_and_raw_text
          [of "\<lambda>s. None" "always csv_200" 1000 1000 "createLookerClient token_credentials 0"
              "''/looks/1/run/csv?''" no_options csv_200]
  by (simp add: received_token_always) (simp add: empty_204_def csv_200_def ok_def contentType_def)

section \<open>Classification of responses\<close>

text \<open>
  C6, the claim as stated fails: for a 500 response whose body is the JSON object
  \<open>{}\<close> (no \<open>message\<close>, no \<open>error\<close>) the message of the error is the generic
  \<open>API error: 500\<close>, where the chain of the claim gives the raw body text \<open>{}\<close>.
\<close>

theorem error_message_not_raw_text:
  "fst (request parse_examples (always empty_object_500) 1000 1000
          (createLookerClient token_credentials 0) ''/user'' no_options)
     = Inl (LookerApiError (JString ''API error: 500'') 500 None None) \<and>
   claimed_error_message parse_examples (response_text empty_object_500) (status empty_object_500)
     = JString ''{}''"
proof -
  have "fst (request parse_examples (always empty_object_500) 1000 1000
          (createLookerClient token_credentials 0) ''/user'' no_options) =
        fst (handle_response parse_examples
          (fst (snd (getAccessToken parse_examples (always empty_object_500) 1000 1000
             (createLookerClient token_credentials 0)))) empty_object_500)"
    by (rule request_received(1) [OF received_token_always])
  then show ?thesis
    by (simp add: handle_response_def empty_object_500_def ok_def error_message_def
          claimed_error_message_def parse_examples_values String_number_500)
qed

text \<open>
  C6, amended. The response is classified in the order 429, then 401 or 403, then 404,
  then any other status outside 200 to 299, then 204, then a content type without
  \<open>application/json\<close>, then JSON. For the fourth class the error carries the status and
  a message: when the body parses as JSON (to a value other than \<open>null\<close>), the
  \<open>message\<close> field if it is truthy, else the \<open>error\<close> field if it is truthy, else the
  generic \<open>API error: <status>\<close>; when the body does not parse (or parses to
  \<open>null\<close>), the raw body text if it is not empty, else the generic string.
\<close>

theorem request_classification:
  assumes "received P f n n' this e opts = Some r"
  shows
   "(status r = 429 \<longrightarrow>
       (\<exists>seconds. fst (request P f n n' this e opts) =
          Inl (RateLimitError ''Rate limit exceeded'' seconds))) \<and>
    (status r = 401 \<or> status r = 403 \<longrightarrow>
       fst (request P f n n' this e opts) =
         Inl (AuthenticationError ''Authentication failed. Check your API credentials.'')) \<and>
    (status r = 404 \<longrightarrow>
       fst (request P f n n' this e opts) =
         Inl (LookerApiError (JString (''Not found: '' @ response_text r)) 404
                (Some ''NOT_FOUND'') (Some False))) \<and>
    (\<not> ok r \<and> status r \<noteq> 429 \<and> status r \<noteq> 401 \<and> status r \<noteq> 403 \<and> status r \<noteq> 404 \<longrightarrow>
       fst (request P f n n' this e opts) =
         Inl (LookerApiError (error_message P (response_text r) (status r)) (status r) None None)) \<and>
    (status r = 204 \<longrightarrow> fst (request P f n n' this e opts) = Inr Undefined) \<and>
    (ok r \<and> status r \<noteq> 204 \<and> \<not> str_includes (contentType r) ''application/json'' \<longrightarrow>
       fst (request P f n n' this e opts) = Inr (Text (response_text r))) \<and>
    (ok r \<and> status r \<noteq> 204 \<and> str_includes (contentType r) ''application/json'' \<longrightarrow>
       fst (request P f n n' this e opts) =
         (case P (response_text r) of None \<Rightarrow> Inl SyntaxError | Some v \<Rightarrow> Inr (Json v))) \<and>
    (\<forall>v. P b = Some v \<and> v \<noteq> JNull \<and> truthy_json (property v ''message'') \<longrightarrow>
       error_message P b st = the (property v ''message'')) \<and>
    (\<forall>v. P b = Some v \<and> v \<noteq> JNull \<and> \<not> truthy_json (property v ''message'') \<and>
         truthy_json (property v ''error'') \<longrightarrow>
       error_message P b st = the (property v ''error'')) \<and>
    (\<forall>v. P b = Some v \<and> v \<noteq> JNull \<and> \<not> truthy_json (property v ''message'') \<and>
         \<not> truthy_json (property v ''error'') \<longrightarrow>
       error_message P b st = JString (''API error: '' @ String_number st)) \<and>
    ((P b = None \<or> P b = Some JNull) \<and> b \<noteq> [] \<longrightarrow> error_message P b st = JString b) \<and>
    ((P b = None \<or> P b = Some JNull) \<and> b = [] \<longrightarrow>
       error_message P b st = JString (''API error: '' @ String_number st))"
proof -
  have res: "fst (request P f n n' this e opts) =
           fst (handle_response P (fst (snd (getAccessToken P f n n' this))) r)"
    using assms by (rule request_received(1))
  have msg: "error_message P b st =
        (if truthy_json (property v ''message'') then the (property v ''message'')
         else if truthy_json (property v ''error'') then the (property v ''error'')
         else JString (''API error: '' @ String_number st))"
    if "P b = Some v" and "v \<noteq> JNull" for v
    using that by (simp add: error_message_def Let_def split: json.split)
  have caught: "error_message P b st =
        (if b \<noteq> [] then JString b else JString (''API error: '' @ String_number st))"
    if "P b = None \<or> P b = Some JNull"
    using that by (auto simp: error_message_def Let_def)
  have c1: "status r = 429 \<longrightarrow>
       (\<exists>seconds. fst (request P f n n' this e opts) =
          Inl (RateLimitError ''Rate limit exceeded'' seconds))"
    unfolding res by (simp add: handle_response_def Let_def)
  have c2: "status r = 401 \<or> status r = 403 \<longrightarrow>
       fst (request P f n n' this e opts) =
         Inl (AuthenticationError ''Authentication failed. Check your API credentials.'')"
    unfolding res by (auto simp: handle_response_def)
  have c3: "status r = 404 \<longrightarrow>
       fst (request P f n n' this e opts) =
         Inl (LookerApiError (JString (''Not found: '' @ response_text r)) 404
                (Some ''NOT_FOUND'') (Some False))"
    unfolding res by (simp add: handle_response_def)
  have c4: "\<not> ok r \<and> status r \<noteq> 429 \<and> status r \<noteq> 401 \<and> status r \<noteq> 403 \<and> status r \<noteq> 404 \<longrightarrow>
       fst (request P f n n' this e opts) =
         Inl (LookerApiError (error_message P (response_text r) (status r)) (status r) None None)"
    unfolding res by (simp add: handle_response_def)
  have c5: "status r = 204 \<longrightarrow> fst (request P f n n' this e opts) = Inr Undefined"
    unfolding res by (simp add: handle_response_def ok_def)
  have c6: "ok r \<and> status r \<noteq> 204 \<and> \<not> str_includes (contentType r) ''application/json'' \<longrightarrow>
       fst (request P f n n' this e opts) = Inr (Text (response_text r))"
    unfolding res by (auto simp: handle_response_def ok_def)
  have c7: "ok r \<and> status r \<noteq> 204 \<and> str_includes (contentType r) ''application/json'' \<longrightarrow>
       fst (request P f n n' this e opts) =
         (case P (response_text r) of None \<Rightarrow> Inl SyntaxError | Some v \<Rightarrow> Inr (Json v))"
    unfolding res by (auto simp: handle_response_def ok_def split: option.split)
  show ?thesis
    using c1 c2 c3 c4 c5 c6 c7 msg caught by presburger
qed

theorem request_classification_example:
  "received parse_examples (always message_500) 1000 1000
     (createLookerClient token_credentials 0) ''/user'' no_options = Some message_500 \<and>
   \<not> ok message_500 \<and> status message_500 = 500 \<and>
   parse_examples error_body = Some (JObject [(''message'', JString ''Query failed'')]) \<and>
   fst (request parse_examples (always message_500) 1000 1000
          (createLookerClient token_credentials 0) ''/user'' no_options)
     = Inl (LookerApiError (JString ''Query failed'') 500 None None)"
  using request_classification
          [of parse_examples "always message_500" 1000 1000 "createLookerClient token_credentials 0"
              "''/user''" no_options message_500 error_body 500]
  by (simp add: received_token_always)
     (simp add: message_500_def ok_def parse_examples_values)


section \<open>Token acquisition\<close>

lemma getAccessToken_supplied:
  assumes "supplied this"
  shows "getAccessToken P f n n' this =
     (Inr (the (accessToken (this_credentials this))),
      (if truthy (this_accessToken this) \<and> n < this_tokenExpiry this - 60000 then this
       else this\<lparr>this_accessToken := accessToken (this_credentials this),
                 this_tokenExpiry := n' + 3600000\<rparr>),
      [])"
  using assms by (auto simp: supplied_def getAccessToken_def)

lemma supplied_getAccessToken:
  "supplied this \<Longrightarrow> supplied (fst (snd (getAccessToken P f n n' this)))"
  by (simp add: getAccessToken_supplied) (simp add: supplied_def)

lemma supplied_handle_response:
  "supplied this \<Longrightarrow> supplied (snd (handle_response P this r))"
  by (simp add: handle_response_def supplied_def Let_def split: option.split)

lemma supplied_request:
  assumes "supplied this"
  shows "supplied (fst (snd (request P f n n' this e opts)))"
  unfolding request_state
  using supplied_getAccessToken [OF assms, of P f n n']
  by (auto split: prod.split sum.split option.split simp: supplied_handle_response)

lemma supplied_perform: "supplied this \<Longrightarrow> supplied (perform P this c)"
  by (cases c) (simp_all add: supplied_getAccessToken supplied_request)

lemma supplied_after_calls: "supplied this \<Longrightarrow> supplied (after_calls P this cs)"
  unfolding after_calls_def
  by (induction cs arbitrary: this) (simp_all add: supplied_perform)

lemma supplied_create:
  "truthy (accessToken credentials) \<Longrightarrow> supplied (createLookerClient credentials t)"
  by (simp add: supplied_def createLookerClient_def)

lemma logins_supplied: "supplied this \<Longrightarrow> logins P this cs = []"
proof (induction cs arbitrary: this)
  case Nil
  show ?case by simp
next
  case (Cons c cs)
  have "token_fetches P this c = []"
    using Cons.prems by (cases c) (simp_all add: getAccessToken_supplied)
  moreover have "logins P (perform P this c) cs = []"
    using Cons.IH Cons.prems by (simp add: supplied_perform)
  ultimately show ?case by simp
qed

lemma getAccessToken_login:
  assumes "\<not> truthy (accessToken (this_credentials this))"
    and "truthy (clientId (this_credentials this))" and "truthy (clientSecret (this_credentials this))"
    and "\<not> (truthy (this_accessToken this) \<and> n < this_tokenExpiry this - 60000)"
    and "f (fst (login_request (this_credentials this))) (snd (login_request (this_credentials this)))
           = Some r"
    and "ok r" and "P (response_text r) = Some data" and "login_data data = Some (token, expires_in)"
  shows "getAccessToken P f n n' this =
     (Inr token,
      this\<lparr>this_accessToken := Some token,
           this_tokenExpiry := n' + (if truthy_int expires_in then the expires_in else 3600) * 1000\<rparr>,
      [login_request (this_credentials this)])"
proof -
  have "data \<noteq> JNull" using assms(8) by auto
  then show ?thesis
    using assms by (cases data) (simp_all add: getAccessToken_def Let_def del: login_data.simps)
qed

lemma getAccessToken_cached:
  assumes "this_accessToken this = Some token" and "token \<noteq> []"
    and "m < this_tokenExpiry this - 60000"
  shows "getAccessToken P f m m' this = (Inr token, this, [])"
  using assms by (simp add: getAccessToken_def)

lemma getAccessToken_cleared_login:
  assumes "this_accessToken this = None"
    and "\<not> truthy (accessToken (this_credentials this))"
    and "truthy (clientId (this_credentials this))" and "truthy (clientSecret (this_credentials this))"
  shows "snd (snd (getAccessToken P f n n' this)) = [login_request (this_credentials this)]"
  using assms
  by (simp add: getAccessToken_def Let_def split: option.split json.split prod.split)

lemma getAccessToken_cleared_supplied:
  assumes "this_accessToken this = None" and "truthy (accessToken (this_credentials this))"
  shows "getAccessToken P f n n' this =
           (Inr (the (accessToken (this_credentials this))),
            this\<lparr>this_accessToken := accessToken (this_credentials this),
                 this_tokenExpiry := n' + 3600000\<rparr>, [])"
  using assms by (simp add: getAccessToken_def)

lemma request_sent:
  assumes "received P f n n' this e opts = Some r"
  shows "\<exists>init. snd (snd (request P f n n' this e opts)) =
           snd (snd (getAccessToken P f n n' this)) @ [(this_baseUrl this @ e, init)]"
  using assms getAccessToken_keeps [of P f n n' this]
  by (auto simp: received_def request_def getAuthHeaders_def Let_def api_request_def
           split: prod.splits sum.splits option.splits)

section \<open>Invalidation on 401 and 403\<close>

text \<open>
  C2, the claim as stated fails for credentials that carry an access token: after a 401
  response has cleared the token slot, the next \<open>getAccessToken\<close> makes no call of
  \<open>fetch\<close> at all; it installs the supplied token again.
\<close>

theorem no_login_after_401_with_supplied_token:
  "received parse_examples (always unauthorized_401) 1000 1000
      (createLookerClient token_credentials 0) ''/user'' no_options = Some unauthorized_401 \<and>
   status unauthorized_401 = 401 \<and>
   this_accessToken (fst (snd (request parse_examples (always unauthorized_401) 1000 1000
      (createLookerClient token_credentials 0) ''/user'' no_options))) = None \<and>
   snd (snd (getAccessToken parse_examples (always unauthorized_401) 2000 2000
      (fst (snd (request parse_examples (always unauthorized_401) 1000 1000
         (createLookerClient token_credentials 0) ''/user'' no_options))))) = []"
proof -
  let ?this2 = "fst (snd (request parse_examples (always unauthorized_401) 1000 1000
      (createLookerClient token_credentials 0) ''/user'' no_options))"
  have "?this2 = snd (handle_response parse_examples
          (fst (snd (getAccessToken parse_examples (always unauthorized_401) 1000 1000
             (createLookerClient token_credentials 0)))) unauthorized_401)"
    by (rule request_received(2) [OF received_token_always])
  then have st: "?this2 =
      (createLookerClient token_credentials 0)\<lparr>this_accessToken := None, this_tokenExpiry := 0\<rparr>"
    by (simp add: handle_response_def unauthorized_401_def getAccessToken_def
          createLookerClient_def token_credentials_def)
  have a: "received parse_examples (always unauthorized_401) 1000 1000
      (createLookerClient token_credentials 0) ''/user'' no_options = Some unauthorized_401"
    by (rule received_token_always)
  have b: "status unauthorized_401 = 401"
    by (simp add: unauthorized_401_def)
  have c: "this_accessToken ?this2 = None"
    by (simp add: st)
  have d: "snd (snd (getAccessToken parse_examples (always unauthorized_401) 2000 2000 ?this2)) = []"
    unfolding st by (simp add: getAccessToken_def createLookerClient_def token_credentials_def)
  show ?thesis
    using a b c d by (intro conjI)
qed

text \<open>
  C2, amended. When the response to its call has status 401 or 403, \<open>request\<close> throws
  an \<open>AuthenticationError\<close>, leaves the token slot \<open>null\<close> and the expiry 0, and has
  made its call once (the calls of the token acquisition, then the one call, no retry).
  The next \<open>getAccessToken\<close> then makes exactly one call, the login request, when the
  credentials carry no access token and carry a client id and secret; when they carry an
  access token it makes no call and installs that token again for one hour.
\<close>

theorem request_401_403_clears_token:
  assumes "received P f n n' this e opts = Some r" and "status r = 401 \<or> status r = 403"
  shows
   "fst (request P f n n' this e opts) =
      Inl (AuthenticationError ''Authentication failed. Check your API credentials.'') \<and>
    this_accessToken (fst (snd (request P f n n' this e opts))) = None \<and>
    this_tokenExpiry (fst (snd (request P f n n' this e opts))) = 0 \<and>
    (\<exists>init. snd (snd (request P f n n' this e opts)) =
         snd (snd (getAccessToken P f n n' this)) @ [(this_baseUrl this @ e, init)]) \<and>
    (\<not> truthy (accessToken (this_credentials this)) \<and>
     truthy (clientId (this_credentials this)) \<and> truthy (clientSecret (this_credentials this)) \<longrightarrow>
       snd (snd (getAccessToken P f2 m m' (fst (snd (request P f n n' this e opts))))) =
         [login_request (this_credentials this)]) \<and>
    (truthy (accessToken (this_credentials this)) \<longrightarrow>
       getAccessToken P f2 m m' (fst (snd (request P f n n' this e opts))) =
         (Inr (the (accessToken (this_credentials this))),
          (fst (snd (request P f n n' this e opts)))
            \<lparr>this_accessToken := accessToken (this_credentials this),
             this_tokenExpiry := m' + 3600000\<rparr>,
          []))"
proof -
  let ?this2 = "fst (snd (request P f n n' this e opts))"
  have hr: "handle_response P that r =
      (Inl (AuthenticationError ''Authentication failed. Check your API credentials.''),
       that\<lparr>this_accessToken := None, this_tokenExpiry := 0\<rparr>)" for that
    using assms(2) by (auto simp: handle_response_def)
  have result: "fst (request P f n n' this e opts) =
      Inl (AuthenticationError ''Authentication failed. Check your API credentials.'')"
    by (simp add: request_received(1) [OF assms(1)] hr)
  have cleared: "this_accessToken ?this2 = None" "this_tokenExpiry ?this2 = 0"
    by (simp_all add: request_received(2) [OF assms(1)] hr)
  have creds: "this_credentials ?this2 = this_credentials this"
    by (simp add: request_keeps)
  have login: "snd (snd (getAccessToken P f2 m m' ?this2)) = [login_request (this_credentials this)]"
    if "\<not> truthy (accessToken (this_credentials this))"
      and "truthy (clientId (this_credentials this))" and "truthy (clientSecret (this_credentials this))"
    using getAccessToken_cleared_login [of ?this2 P f2 m m'] that cleared(1) creds by simp
  have again: "getAccessToken P f2 m m' ?this2 =
         (Inr (the (accessToken (this_credentials this))),
          ?this2\<lparr>this_accessToken := accessToken (this_credentials this),
                 this_tokenExpiry := m' + 3600000\<rparr>, [])"
    if "truthy (accessToken (this_credentials this))"
    using getAccessToken_cleared_supplied [of ?this2 P f2 m m'] that cleared(1) creds by simp
  show ?thesis
    using result cleared request_sent [OF assms(1)] login again by blast
qed

theorem request_401_403_clears_token_example:
  "received parse_examples (login_then login_body_hour unauthorized_401) 1000 1000
      (createLookerClient oauth_credentials 0) ''/user'' no_options = Some unauthorized_401 \<and>
   status unauthorized_401 = 401 \<and>
   fst (request parse_examples (login_then login_body_hour unauthorized_401) 1000 1000
          (createLookerClient oauth_credentials 0) ''/user'' no_options) =
     Inl (AuthenticationError ''Authentication failed. Check your API credentials.'') \<and>
   this_accessToken (fst (snd (request parse_examples (login_then login_body_hour unauthorized_401)
      1000 1000 (createLookerClient oauth_credentials 0) ''/user'' no_options))) = None \<and>
   this_tokenExpiry (fst (snd (request parse_examples (login_then login_body_hour unauthorized_401)
      1000 1000 (createLookerClient oauth_credentials 0) ''/user'' no_options))) = 0 \<and>
   snd (snd (getAccessToken parse_examples (login_then login_body_hour unauthorized_401) 2000 2000
      (fst (snd (request parse_examples (login_then login_body_hour unauthorized_401) 1000 1000
         (createLookerClient oauth_credentials 0) ''/user'' no_options))))) =
     [login_request oauth_credentials]"
proof -
  have creds: "this_credentials (createLookerClient oauth_credentials 0) = oauth_credentials"
    by (simp add: createLookerClient_def Let_def)
  have t: "\<not> truthy (accessToken oauth_credentials)" "truthy (clientId oauth_credentials)"
    "truthy (clientSecret oauth_credentials)" "status unauthorized_401 = 401"
    by (simp_all add: oauth_credentials_def unauthorized_401_def)
  show ?thesis
    using request_401_403_clears_token
            [of parse_examples "login_then login_body_hour unauthorized_401" 1000 1000
                "createLookerClient oauth_credentials 0" "''/user''" no_options unauthorized_401
                "login_then login_body_hour unauthorized_401" 2000 2000]
    by (simp add: received_oauth_example creds t)
qed


section \<open>A supplied access token\<close>

lemma after_401_token_example:
  "after_calls parse_examples (createLookerClient token_credentials 0)
     [Request (always unauthorized_401) 1000 1000 ''/user'' no_options] =
   (createLookerClient token_credentials 0)\<lparr>this_accessToken := None, this_tokenExpiry := 0\<rparr>"
proof -
  have "fst (snd (request parse_examples (always unauthorized_401) 1000 1000
      (createLookerClient token_credentials 0) ''/user'' no_options)) =
    snd (handle_response parse_examples
          (fst (snd (getAccessToken parse_examples (always unauthorized_401) 1000 1000
             (createLookerClient token_credentials 0)))) unauthorized_401)"
    by (rule request_received(2) [OF received_token_always])
  then have "fst (snd (request parse_examples (always unauthorized_401) 1000 1000
      (createLookerClient token_credentials 0) ''/user'' no_options)) =
      (createLookerClient token_credentials 0)\<lparr>this_accessToken := None, this_tokenExpiry := 0\<rparr>"
    by (simp add: handle_response_def unauthorized_401_def getAccessToken_def
          createLookerClient_def token_credentials_def)
  then show ?thesis
    by (simp add: after_calls_def)
qed

text \<open>
  C3. For credentials whose \<open>accessToken\<close> is set (a non-empty string), whatever the
  client id and secret: the constructor installs the token with expiry one hour after
  its \<open>Date.now()\<close>; over any sequence of token requests and of \<open>request\<close> calls,
  whatever the network answers (401 and 403 included), the token acquisition makes no
  call of \<open>fetch\<close>. On the client after any such sequence the token slot is empty or
  holds the supplied token, and \<open>getAccessToken\<close> returns the supplied token without a
  call: it leaves the client as it is exactly when the slot holds the token and more
  than 60000 ms remain before the recorded expiry (the token is treated as cached),
  and otherwise installs the supplied token with expiry one hour after \<open>Date.now()\<close>.
  In particular, right after a \<open>request\<close> whose response was a 401 or a 403, it installs
  the supplied token again for one hour.
\<close>

theorem supplied_token_never_logs_in:
  assumes "truthy (accessToken credentials)"
  shows
   "logins P (createLookerClient credentials t) cs = [] \<and>
    this_accessToken (createLookerClient credentials t) = accessToken credentials \<and>
    this_tokenExpiry (createLookerClient credentials t) = t + 3600000 \<and>
    (this_accessToken (after_calls P (createLookerClient credentials t) cs) = None \<or>
     this_accessToken (after_calls P (createLookerClient credentials t) cs) = accessToken credentials) \<and>
    getAccessToken P f n n' (after_calls P (createLookerClient credentials t) cs) =
      (Inr (the (accessToken credentials)),
       (if this_accessToken (after_calls P (createLookerClient credentials t) cs) =
             accessToken credentials \<and>
           n < this_tokenExpiry (after_calls P (createLookerClient credentials t) cs) - 60000
        then after_calls P (createLookerClient credentials t) cs
        else (after_calls P (createLookerClient credentials t) cs)
               \<lparr>this_accessToken := accessToken credentials, this_tokenExpiry := n' + 3600000\<rparr>),
       []) \<and>
    (received P f0 k k' (after_calls P (createLookerClient credentials t) cs) e opts = Some r \<and>
     (status r = 401 \<or> status r = 403) \<longrightarrow>
       getAccessToken P f n n'
         (fst (snd (request P f0 k k' (after_calls P (createLookerClient credentials t) cs) e opts))) =
         (Inr (the (accessToken credentials)),
          (fst (snd (request P f0 k k' (after_calls P (createLookerClient credentials t) cs) e opts)))
            \<lparr>this_accessToken := accessToken credentials, this_tokenExpiry := n' + 3600000\<rparr>,
          []))"
proof -
  let ?c = "createLookerClient credentials t"
  let ?after = "after_calls P ?c cs"
  let ?cleared = "fst (snd (request P f0 k k' ?after e opts))"
  have s0: "supplied ?c" using assms by (rule supplied_create)
  have s: "supplied ?after" using s0 by (rule supplied_after_calls)
  have creds: "this_credentials ?after = credentials"
    by (simp add: after_calls_keeps) (simp add: createLookerClient_def Let_def)
  have init: "this_accessToken ?c = accessToken credentials" "this_tokenExpiry ?c = t + 3600000"
    using assms by (simp_all add: createLookerClient_def)
  have slot: "this_accessToken ?after = None \<or> this_accessToken ?after = accessToken credentials"
    using s by (simp add: supplied_def creds)
  have hit: "(truthy (this_accessToken ?after) \<and> n < this_tokenExpiry ?after - 60000) =
      (this_accessToken ?after = accessToken credentials \<and> n < this_tokenExpiry ?after - 60000)"
    using slot assms by auto
  have token: "getAccessToken P f n n' ?after =
      (Inr (the (accessToken credentials)),
       (if this_accessToken ?after = accessToken credentials \<and> n < this_tokenExpiry ?after - 60000
        then ?after
        else ?after\<lparr>this_accessToken := accessToken credentials, this_tokenExpiry := n' + 3600000\<rparr>),
       [])"
    unfolding getAccessToken_supplied [OF s] hit creds by simp
  have again: "getAccessToken P f n n' ?cleared =
         (Inr (the (accessToken credentials)),
          ?cleared\<lparr>this_accessToken := accessToken credentials, this_tokenExpiry := n' + 3600000\<rparr>,
          [])"
    if rec: "received P f0 k k' ?after e opts = Some r" and st: "status r = 401 \<or> status r = 403"
  proof -
    have hr: "snd (handle_response P that r) = that\<lparr>this_accessToken := None, this_tokenExpiry := 0\<rparr>"
      for that
      using st by (auto simp: handle_response_def)
    have "this_accessToken ?cleared = None"
      by (simp add: request_received(2) [OF rec] hr)
    moreover have "this_credentials ?cleared = credentials"
      by (simp add: request_keeps creds)
    ultimately show ?thesis
      using getAccessToken_cleared_supplied [of ?cleared P f n n'] assms by simp
  qed
  show ?thesis
    using logins_supplied [OF s0, of P cs] init slot token again by blast
qed

theorem supplied_token_never_logs_in_example:
  "truthy (accessToken token_credentials) \<and>
   logins parse_examples (createLookerClient token_credentials 0)
     [Request (always unauthorized_401) 1000 1000 ''/user'' no_options] = [] \<and>
   this_tokenExpiry (createLookerClient token_credentials 0) = 3600000 \<and>
   getAccessToken parse_examples (always empty_list_200) 2000 2000
     (after_calls parse_examples (createLookerClient token_credentials 0)
        [Request (always unauthorized_401) 1000 1000 ''/user'' no_options]) =
     (Inr ''tok'',
      (createLookerClient token_credentials 0)
        \<lparr>this_accessToken := Some ''tok'', this_tokenExpiry := 3602000\<rparr>,
      []) \<and>
   getAccessToken parse_examples (always empty_list_200) 2000 2000
     (after_calls parse_examples (createLookerClient token_credentials 0) []) =
     (Inr ''tok'', createLookerClient token_credentials 0, [])"
proof -
  have t: "truthy (accessToken token_credentials)"
    by (simp add: token_credentials_def)
  note cleared = supplied_token_never_logs_in
          [OF t, of parse_examples 0
              "[Request (always unauthorized_401) 1000 1000 ''/user'' no_options]"
              "always empty_list_200" 2000 2000]
  note fresh = supplied_token_never_logs_in
          [OF t, of parse_examples 0 "[]" "always empty_list_200" 2000 2000]
  have a: "logins parse_examples (createLookerClient token_credentials 0)
     [Request (always unauthorized_401) 1000 1000 ''/user'' no_options] = []"
    using cleared by blast
  have b: "this_tokenExpiry (createLookerClient token_credentials 0) = 3600000"
    using cleared by simp
  have c: "getAccessToken parse_examples (always empty_list_200) 2000 2000
     (after_calls parse_examples (createLookerClient token_credentials 0)
        [Request (always unauthorized_401) 1000 1000 ''/user'' no_options]) =
     (Inr ''tok'',
      (createLookerClient token_credentials 0)
        \<lparr>this_accessToken := Some ''tok'', this_tokenExpiry := 3602000\<rparr>,
      [])"
    using cleared [THEN conjunct2, THEN conjunct2, THEN conjunct2, THEN conjunct2, THEN conjunct1]
    unfolding after_401_token_example
    by (simp add: token_credentials_def)
  have d: "getAccessToken parse_examples (always empty_list_200) 2000 2000
     (after_calls parse_examples (createLookerClient token_credentials 0) []) =
     (Inr ''tok'', createLookerClient token_credentials 0, [])"
    using fresh [THEN conjunct2, THEN conjunct2, THEN conjunct2, THEN conjunct2, THEN conjunct1]
    by (simp add: after_calls_def) (simp add: createLookerClient_def token_credentials_def)
  show ?thesis
    using t a b c d by (intro conjI)
qed

section \<open>Login and the cached token\<close>

text \<open>
  C4, the claim as stated fails at two inputs. When the login response carries
  \<open>expires_in: 0\<close> the recorded expiry is \<open>now + 3600 * 1000\<close>, not
  \<open>now + 0 * 1000\<close>. When the login response carries an empty \<open>access_token\<close>, a
  second token request well before the recorded expiry logs in again.
\<close>

theorem zero_expires_in_and_empty_token:
  "this_tokenExpiry (fst (snd (getAccessToken parse_examples (login_then login_body_zero empty_list_200)
      1000 1000 (createLookerClient oauth_credentials 0)))) = 1000 + 3600 * 1000 \<and>
   this_tokenExpiry (fst (snd (getAccessToken parse_examples (login_then login_body_zero empty_list_200)
      1000 1000 (createLookerClient oauth_credentials 0)))) \<noteq> 1000 + 0 * 1000 \<and>
   snd (snd (getAccessToken parse_examples (login_then login_body_empty empty_list_200) 2000 2000
      (fst (snd (getAccessToken parse_examples (login_then login_body_empty empty_list_200)
         1000 1000 (createLookerClient oauth_credentials 0)))))) = [login_request oauth_credentials]"
proof -
  have z: "getAccessToken parse_examples (login_then login_body_zero empty_list_200)
      1000 1000 (createLookerClient oauth_credentials 0) =
      (Inr ''T1'',
       (createLookerClient oauth_credentials 0)
         \<lparr>this_accessToken := Some ''T1'', this_tokenExpiry := 3601000\<rparr>,
       [login_request oauth_credentials])"
    by (simp add: getAccessToken_def createLookerClient_def oauth_credentials_def login_request_def
        login_then_def ok_def parse_examples_values Let_def)
  have e: "getAccessToken parse_examples (login_then login_body_empty empty_list_200)
      1000 1000 (createLookerClient oauth_credentials 0) =
      (Inr [],
       (createLookerClient oauth_credentials 0)
         \<lparr>this_accessToken := Some [], this_tokenExpiry := 3601000\<rparr>,
       [login_request oauth_credentials])"
    by (simp add: getAccessToken_def createLookerClient_def oauth_credentials_def login_request_def
        login_then_def ok_def parse_examples_values Let_def)
  have e2: "snd (snd (getAccessToken parse_examples (login_then login_body_empty empty_list_200)
      2000 2000
      ((createLookerClient oauth_credentials 0)
         \<lparr>this_accessToken := Some [], this_tokenExpiry := 3601000\<rparr>))) =
      [login_request oauth_credentials]"
    by (simp add: getAccessToken_def createLookerClient_def oauth_credentials_def login_request_def
        login_then_def ok_def parse_examples_values Let_def)
  show ?thesis
    by (simp add: z e e2)
qed

text \<open>
  C4, amended. For credentials with no access token and with a client id and secret, the
  first \<open>getAccessToken\<close> on a fresh client makes exactly one call, the login request,
  whatever the network answers. When the login succeeds with a token and an optional
  \<open>expires_in\<close>, it returns the token and caches it; the recorded expiry is
  \<open>now + expires_in * 1000\<close> when \<open>expires_in\<close> is a number other than 0, and
  \<open>now + 3600 * 1000\<close> when it is omitted or 0. A second \<open>getAccessToken\<close> at a time
  more than 60000 ms before that expiry, the token being non-empty, makes no call and
  returns the cached token with the client unchanged.
\<close>

theorem first_login_then_cache_hit:
  assumes "\<not> truthy (accessToken credentials)"
    and "truthy (clientId credentials)" and "truthy (clientSecret credentials)"
  shows
   "snd (snd (getAccessToken P f n n' (createLookerClient credentials t))) = [login_request credentials] \<and>
    (f (fst (login_request credentials)) (snd (login_request credentials)) = Some r \<and>
     ok r \<and> P (response_text r) = Some data \<and> login_data data = Some (token, expires_in) \<longrightarrow>
       fst (getAccessToken P f n n' (createLookerClient credentials t)) = Inr token \<and>
       this_accessToken (fst (snd (getAccessToken P f n n' (createLookerClient credentials t)))) =
         Some token \<and>
       (\<forall>s. expires_in = Some s \<and> s \<noteq> 0 \<longrightarrow>
          this_tokenExpiry (fst (snd (getAccessToken P f n n' (createLookerClient credentials t)))) =
            n' + s * 1000) \<and>
       (expires_in = None \<or> expires_in = Some 0 \<longrightarrow>
          this_tokenExpiry (fst (snd (getAccessToken P f n n' (createLookerClient credentials t)))) =
            n' + 3600 * 1000) \<and>
       (token \<noteq> [] \<and>
        m < this_tokenExpiry (fst (snd (getAccessToken P f n n' (createLookerClient credentials t))))
              - 60000 \<longrightarrow>
          getAccessToken P f2 m m'
            (fst (snd (getAccessToken P f n n' (createLookerClient credentials t)))) =
            (Inr token, fst (snd (getAccessToken P f n n' (createLookerClient credentials t))), [])))"
proof -
  let ?c = "createLookerClient credentials t"
  have c: "this_credentials ?c = credentials" "this_accessToken ?c = None"
    using assms(1) by (simp_all add: createLookerClient_def)
  have once: "snd (snd (getAccessToken P f n n' ?c)) = [login_request credentials]"
    using getAccessToken_cleared_login [of ?c P f n n'] assms c by simp
  have success:
    "fst (getAccessToken P f n n' ?c) = Inr token \<and>
     this_accessToken (fst (snd (getAccessToken P f n n' ?c))) = Some token \<and>
     (\<forall>s. expires_in = Some s \<and> s \<noteq> 0 \<longrightarrow>
        this_tokenExpiry (fst (snd (getAccessToken P f n n' ?c))) = n' + s * 1000) \<and>
     (expires_in = None \<or> expires_in = Some 0 \<longrightarrow>
        this_tokenExpiry (fst (snd (getAccessToken P f n n' ?c))) = n' + 3600 * 1000) \<and>
     (token \<noteq> [] \<and> m < this_tokenExpiry (fst (snd (getAccessToken P f n n' ?c))) - 60000 \<longrightarrow>
        getAccessToken P f2 m m' (fst (snd (getAccessToken P f n n' ?c))) =
          (Inr token, fst (snd (getAccessToken P f n n' ?c)), []))"
    if login: "f (fst (login_request credentials)) (snd (login_request credentials)) = Some r"
      "ok r" "P (response_text r) = Some data" "login_data data = Some (token, expires_in)"
  proof -
    have first: "getAccessToken P f n n' ?c =
       (Inr token,
        ?c\<lparr>this_accessToken := Some token,
            this_tokenExpiry := n' + (if truthy_int expires_in then the expires_in else 3600) * 1000\<rparr>,
        [login_request credentials])"
      using getAccessToken_login [of ?c n f r P data token expires_in n'] assms c login by simp
    have second: "getAccessToken P f2 m m' (fst (snd (getAccessToken P f n n' ?c))) =
           (Inr token, fst (snd (getAccessToken P f n n' ?c)), [])"
      if "token \<noteq> []" and "m < this_tokenExpiry (fst (snd (getAccessToken P f n n' ?c))) - 60000"
      using that by (intro getAccessToken_cached) (simp_all add: first)
    show ?thesis
      using second by (auto simp: first)
  qed
  show ?thesis
    using once success by blast
qed

theorem first_login_then_cache_hit_example:
  "\<not> truthy (accessToken oauth_credentials) \<and>
   truthy (clientId oauth_credentials) \<and> truthy (clientSecret oauth_credentials) \<and>
   snd (snd (getAccessToken parse_examples (always unauthorized_401) 1000 1000
     (createLookerClient oauth_credentials 0))) = [login_request oauth_credentials] \<and>
   getAccessToken parse_examples (login_then login_body_hour empty_list_200) 1000 1000
     (createLookerClient oauth_credentials 0) =
     (Inr ''T1'',
      (createLookerClient oauth_credentials 0)
        \<lparr>this_accessToken := Some ''T1'', this_tokenExpiry := 3601000\<rparr>,
      [login_request oauth_credentials]) \<and>
   getAccessToken parse_examples (login_then login_body_hour empty_list_200) 3540999 3540999
     ((createLookerClient oauth_credentials 0)
        \<lparr>this_accessToken := Some ''T1'', this_tokenExpiry := 3601000\<rparr>) =
     (Inr ''T1'',
      (createLookerClient oauth_credentials 0)
        \<lparr>this_accessToken := Some ''T1'', this_tokenExpiry := 3601000\<rparr>,
      [])"
proof -
  have first: "getAccessToken parse_examples (login_then login_body_hour empty_list_200) 1000 1000
     (createLookerClient oauth_credentials 0) =
     (Inr ''T1'',
      (createLookerClient oauth_credentials 0)
        \<lparr>this_accessToken := Some ''T1'', this_tokenExpiry := 3601000\<rparr>,
      [login_request oauth_credentials])"
    using getAccessToken_oauth_example [of empty_list_200 1000 1000 0] by simp
  have login:
    "login_then login_body_hour empty_list_200
       (fst (login_request oauth_credentials)) (snd (login_request oauth_credentials)) =
     Some \<lparr>status = 200, headers_get = [''Content-Type'' \<mapsto> ''application/json''],
           response_text = login_body_hour\<rparr>"
    by (simp add: login_then_def login_request_def oauth_credentials_def)
  have t: "\<not> truthy (accessToken oauth_credentials)" "truthy (clientId oauth_credentials)"
    "truthy (clientSecret oauth_credentials)"
    by (simp_all add: oauth_credentials_def)
  have data: "login_data (JObject [(''access_token'', JString ''T1''), (''expires_in'', JNumber 3600)]) =
      Some (''T1'', Some 3600)"
    by simp
  have okr: "ok \<lparr>status = 200, headers_get = [''Content-Type'' \<mapsto> ''application/json''],
           response_text = login_body_hour\<rparr>"
    by (simp add: ok_def)
  have failed: "snd (snd (getAccessToken parse_examples (always unauthorized_401) 1000 1000
     (createLookerClient oauth_credentials 0))) = [login_request oauth_credentials]"
    using first_login_then_cache_hit [OF t, of parse_examples "always unauthorized_401" 1000 1000 0]
    by blast
  have hit: "getAccessToken parse_examples (login_then login_body_hour empty_list_200) 3540999 3540999
     ((createLookerClient oauth_credentials 0)
        \<lparr>this_accessToken := Some ''T1'', this_tokenExpiry := 3601000\<rparr>) =
     (Inr ''T1'',
      (createLookerClient oauth_credentials 0)
        \<lparr>this_accessToken := Some ''T1'', this_tokenExpiry := 3601000\<rparr>,
      [])"
    using first_login_then_cache_hit
            [OF t, of parse_examples "login_then login_body_hour empty_list_200" 1000 1000 0
                "\<lparr>status = 200, headers_get = [''Content-Type'' \<mapsto> ''application/json''],
                  response_text = login_body_hour\<rparr>"
                "JObject [(''access_token'', JString ''T1''), (''expires_in'', JNumber 3600)]"
                "''T1''" "Some 3600" 3540999
                "login_then login_body_hour empty_list_200" 3540999]
          login okr data
    by (simp add: first parse_examples_values)
  show ?thesis
    using t failed first hit by (intro conjI)
qed

section \<open>The calls that are sent\<close>

lemma request_sent_token:
  assumes "getAccessToken P f n n' this = (Inr token, this', sent)"
  shows "snd (snd (request P f n n' this e opts)) =
           sent @ [(this_baseUrl this @ e,
                    opts\<lparr>headers :=
                      Some ([''Authorization'' \<mapsto> ''Bearer '' @ token,
                             ''Content-Type'' \<mapsto> ''application/json''] ++
                            (case headers opts of None \<Rightarrow> Map.empty | Some h \<Rightarrow> h))\<rparr>)]"
proof -
  have "this_baseUrl this' = this_baseUrl this"
    using getAccessToken_keeps [of P f n n' this] assms by simp
  then show ?thesis
    using assms
    by (simp add: request_def getAuthHeaders_def api_request_def Let_def split: option.split prod.split)
qed

lemma getAccessToken_sent_cases:
  "snd (snd (getAccessToken P f n n' this)) = [] \<or>
   snd (snd (getAccessToken P f n n' this)) = [login_request (this_credentials this)]"
  by (simp add: getAccessToken_def Let_def split: option.split json.split prod.split)

lemma list_paginated_sent:
  "snd (snd (list_paginated path P f n n' this params)) =
   snd (snd (request P f n n' this
               (path @ ''?'' @ URLSearchParams_toString (pagination_query params)) no_options))"
  by (simp add: list_paginated_def split: prod.split sum.split)

lemma createLookerClient_keeps:
  "this_credentials (createLookerClient credentials t) = credentials \<and>
   this_baseUrl (createLookerClient credentials t) = template (baseUrl credentials) @ ''/api/4.0''"
  by (simp add: createLookerClient_def Let_def)

text \<open>
  C8. On every client (any client reached from the constructor by any sequence of
  calls), when the token acquisition returns a token, \<open>request\<close> sends its call to the
  concatenation of \<open>baseUrl\<close>, \<open>/api/4.0\<close> and the endpoint, with the caller's options
  and with the headers \<open>Authorization: Bearer <token>\<close> and
  \<open>Content-Type: application/json\<close> overridden by the caller's headers. The token
  acquisition sends nothing or the one login call: a POST to \<open>{baseUrl}/api/4.0/login\<close>
  with the form-encoded \<open>client_id\<close> and \<open>client_secret\<close>. A list call then carries
  \<open>Authorization: Bearer <token>\<close>.
\<close>

theorem request_url_and_headers:
  assumes "getAccessToken P f n n' (after_calls P (createLookerClient credentials t) cs) =
             (Inr token, this', sent)"
  shows
   "snd (snd (request P f n n' (after_calls P (createLookerClient credentials t) cs) e opts)) =
      sent @ [(template (baseUrl credentials) @ ''/api/4.0'' @ e,
               opts\<lparr>headers :=
                 Some ([''Authorization'' \<mapsto> ''Bearer '' @ token,
                        ''Content-Type'' \<mapsto> ''application/json''] ++
                       (case headers opts of None \<Rightarrow> Map.empty | Some h \<Rightarrow> h))\<rparr>)] \<and>
    (sent = [] \<or>
     sent = [(template (baseUrl credentials) @ ''/api/4.0/login'',
              \<lparr>method' = Some ''POST'',
               headers = Some [''Content-Type'' \<mapsto> ''application/x-www-form-urlencoded''],
               body = Some (''client_id='' @ encodeURIComponent (template (clientId credentials)) @
                            ''&client_secret='' @
                            encodeURIComponent (template (clientSecret credentials)))\<rparr>)]) \<and>
    snd (snd (listLooks P f n n' (after_calls P (createLookerClient credentials t) cs) params)) =
      sent @ [(template (baseUrl credentials) @ ''/api/4.0'' @ ''/looks?'' @
                 URLSearchParams_toString (pagination_query params),
               \<lparr>method' = None,
                headers = Some [''Authorization'' \<mapsto> ''Bearer '' @ token,
                                ''Content-Type'' \<mapsto> ''application/json''],
                body = None\<rparr>)]"
proof -
  let ?client = "after_calls P (createLookerClient credentials t) cs"
  have keeps: "this_credentials ?client = credentials"
    "this_baseUrl ?client = template (baseUrl credentials) @ ''/api/4.0''"
    by (simp_all add: after_calls_keeps createLookerClient_keeps)
  have call: "snd (snd (request P f n n' ?client e' opts')) =
      sent @ [(template (baseUrl credentials) @ ''/api/4.0'' @ e',
               opts'\<lparr>headers :=
                 Some ([''Authorization'' \<mapsto> ''Bearer '' @ token,
                        ''Content-Type'' \<mapsto> ''application/json''] ++
                       (case headers opts' of None \<Rightarrow> Map.empty | Some h \<Rightarrow> h))\<rparr>)]"
    for e' opts'
    using request_sent_token [OF assms, of e' opts'] by (simp add: keeps)
  have login: "sent = [] \<or> sent = [login_request credentials]"
    using getAccessToken_sent_cases [of P f n n' ?client] assms by (simp add: keeps)
  have list: "snd (snd (listLooks P f n n' ?client params)) =
      sent @ [(template (baseUrl credentials) @ ''/api/4.0'' @ ''/looks?'' @
                 URLSearchParams_toString (pagination_query params),
               \<lparr>method' = None,
                headers = Some [''Authorization'' \<mapsto> ''Bearer '' @ token,
                                ''Content-Type'' \<mapsto> ''application/json''],
                body = None\<rparr>)]"
    by (simp add: listLooks_def list_paginated_sent call) (simp add: no_options_def)
  show ?thesis
    using call [of e opts] login list by (simp add: login_request_def)
qed

lemma pagination_query_limit_1:
  "URLSearchParams_toString (pagination_query (Some \<lparr>limit = Some 1, offset = None, fields' = None\<rparr>))
     = ''limit=1''"
  by (simp add: pagination_query_def String_number_def form_urlencode_def is_alphanumeric_def)

lemma getAccessToken_e2e:
  "getAccessToken parse_examples (login_then login_body one_look_200) 1000 1000
     (createLookerClient oauth_credentials 0) =
     (Inr ''T1'',
      (createLookerClient oauth_credentials 0)
        \<lparr>this_accessToken := Some ''T1'', this_tokenExpiry := 11000\<rparr>,
      [login_request oauth_credentials])"
  by (simp add: getAccessToken_def createLookerClient_def oauth_credentials_def login_request_def
        login_then_def ok_def parse_examples_values Let_def)

theorem request_url_and_headers_example:
  "snd (snd (listLooks parse_examples (login_then login_body one_look_200) 1000 1000
               (createLookerClient oauth_credentials 0)
               (Some \<lparr>limit = Some 1, offset = None, fields' = None\<rparr>))) =
     [(''https://x.looker.com/api/4.0/login'',
       \<lparr>method' = Some ''POST'',
        headers = Some [''Content-Type'' \<mapsto> ''application/x-www-form-urlencoded''],
        body = Some ''client_id=a&client_secret=b''\<rparr>),
      (''https://x.looker.com/api/4.0/looks?limit=1'',
       \<lparr>method' = None,
        headers = Some [''Authorization'' \<mapsto> ''Bearer T1'', ''Content-Type'' \<mapsto> ''application/json''],
        body = None\<rparr>)]"
proof -
  have tok: "getAccessToken parse_examples (login_then login_body one_look_200) 1000 1000
     (after_calls parse_examples (createLookerClient oauth_credentials 0) []) =
     (Inr ''T1'',
      (createLookerClient oauth_credentials 0)
        \<lparr>this_accessToken := Some ''T1'', this_tokenExpiry := 11000\<rparr>,
      [login_request oauth_credentials])"
    by (simp add: after_calls_def getAccessToken_e2e)
  have login: "login_request oauth_credentials =
     (''https://x.looker.com/api/4.0/login'',
       \<lparr>method' = Some ''POST'',
        headers = Some [''Content-Type'' \<mapsto> ''application/x-www-form-urlencoded''],
        body = Some ''client_id=a&client_secret=b''\<rparr>)"
    by (simp add: login_request_def oauth_credentials_def encodeURIComponent_def is_alphanumeric_def)
  have base: "template (baseUrl oauth_credentials) = ''https://x.looker.com''"
    by (simp add: oauth_credentials_def)
  show ?thesis
    using request_url_and_headers [OF tok, of "''/user''" no_options
            "Some \<lparr>limit = Some 1, offset = None, fields' = None\<rparr>"]
    by (simp add: after_calls_def pagination_query_limit_1 login base)
qed

section \<open>Scheduled plans\<close>

text \<open>
  C9. \<open>listScheduledPlans\<close> does the same whatever \<open>look_id\<close> and \<open>dashboard_id\<close> it
  is given: it is \<open>request\<close> on \<open>/scheduled_plans?\<close> followed by \<open>user_id=<value>\<close>
  when \<open>user_id\<close> is set (a non-empty string) and by nothing otherwise, so that the
  call it sends has that URL.
\<close>

theorem listScheduledPlans_forwards_user_id_only:
  "listScheduledPlans P f n n' this (Some p) =
     listScheduledPlans P f n n' this (Some (p\<lparr>look_id := l, dashboard_id := d\<rparr>)) \<and>
   listScheduledPlans P f n n' this params =
     request P f n n' this
       (''/scheduled_plans?'' @
          (if truthy (Option.bind params user_id)
           then ''user_id='' @ form_urlencode (the (Option.bind params user_id)) else []))
       no_options \<and>
   (getAccessToken P f n n' this = (Inr token, this', sent) \<longrightarrow>
      (\<exists>init. snd (snd (listScheduledPlans P f n n' this params)) =
         sent @ [(this_baseUrl this @ ''/scheduled_plans?'' @
                    (if truthy (Option.bind params user_id)
                     then ''user_id='' @ form_urlencode (the (Option.bind params user_id)) else []),
                  init)]))"
proof -
  have name: "form_urlencode ''user_id'' = ''user_id''"
    by (simp add: form_urlencode_def is_alphanumeric_def)
  have eq: "listScheduledPlans P f n n' this q =
     request P f n n' this
       (''/scheduled_plans?'' @
          (if truthy (Option.bind q user_id)
           then ''user_id='' @ form_urlencode (the (Option.bind q user_id)) else []))
       no_options" for q
    by (simp add: listScheduledPlans_def name)
  have same: "listScheduledPlans P f n n' this (Some p) =
     listScheduledPlans P f n n' this (Some (p\<lparr>look_id := l, dashboard_id := d\<rparr>))"
    by (simp add: eq)
  have sent: "\<exists>init. snd (snd (listScheduledPlans P f n n' this params)) =
         sent @ [(this_baseUrl this @ ''/scheduled_plans?'' @
                    (if truthy (Option.bind params user_id)
                     then ''user_id='' @ form_urlencode (the (Option.bind params user_id)) else []),
                  init)]"
    if "getAccessToken P f n n' this = (Inr token, this', sent)"
    unfolding eq request_sent_token [OF that] by blast
  show ?thesis
    using same eq [of params] sent by blast
qed

theorem listScheduledPlans_forwards_user_id_only_example:
  "listScheduledPlans parse_examples (always empty_list_200) 1000 1000
     (createLookerClient token_credentials 0)
     (Some \<lparr>user_id = Some ''42'', look_id = Some ''7'', dashboard_id = Some ''9''\<rparr>) =
   listScheduledPlans parse_examples (always empty_list_200) 1000 1000
     (createLookerClient token_credentials 0)
     (Some \<lparr>user_id = Some ''42'', look_id = None, dashboard_id = None\<rparr>) \<and>
   snd (snd (listScheduledPlans parse_examples (always empty_list_200) 1000 1000
     (createLookerClient token_credentials 0)
     (Some \<lparr>user_id = Some ''42'', look_id = Some ''7'', dashboard_id = Some ''9''\<rparr>))) =
   [(''https://x.looker.com/api/4.0/scheduled_plans?user_id=42'',
     \<lparr>method' = None,
      headers = Some [''Authorization'' \<mapsto> ''Bearer tok'', ''Content-Type'' \<mapsto> ''application/json''],
      body = None\<rparr>)]"
proof -
  have tok: "getAccessToken parse_examples (always empty_list_200) 1000 1000
     (createLookerClient token_credentials 0) =
     (Inr ''tok'', createLookerClient token_credentials 0, [])"
    by (simp add: getAccessToken_def createLookerClient_def token_credentials_def)
  have enc: "form_urlencode ''42'' = ''42''"
    by (simp add: form_urlencode_def is_alphanumeric_def)
  have base: "this_baseUrl (createLookerClient token_credentials 0) = ''https://x.looker.com/api/4.0''"
    by (simp add: createLookerClient_def token_credentials_def)
  have sent: "snd (snd (request parse_examples (always empty_list_200) 1000 1000
      (createLookerClient token_credentials 0) ''/scheduled_plans?user_id=42'' no_options)) =
    [(''https://x.looker.com/api/4.0/scheduled_plans?user_id=42'',
     \<lparr>method' = None,
      headers = Some [''Authorization'' \<mapsto> ''Bearer tok'', ''Content-Type'' \<mapsto> ''application/json''],
      body = None\<rparr>)]"
    by (simp add: request_sent_token [OF tok] base) (simp add: no_options_def)
  note plans = listScheduledPlans_forwards_user_id_only
            [of parse_examples "always empty_list_200" 1000 1000
                "createLookerClient token_credentials 0"
                "\<lparr>user_id = Some ''42'', look_id = Some ''7'', dashboard_id = Some ''9''\<rparr>"
                None None
                "Some \<lparr>user_id = Some ''42'', look_id = Some ''7'', dashboard_id = Some ''9''\<rparr>"
                "''tok''" "createLookerClient token_credentials 0" "[]"]
  have same: "listScheduledPlans parse_examples (always empty_list_200) 1000 1000
     (createLookerClient token_credentials 0)
     (Some \<lparr>user_id = Some ''42'', look_id = Some ''7'', dashboard_id = Some ''9''\<rparr>) =
   listScheduledPlans parse_examples (always empty_list_200) 1000 1000
     (createLookerClient token_credentials 0)
     (Some \<lparr>user_id = Some ''42'', look_id = None, dashboard_id = None\<rparr>)"
    using plans [THEN conjunct1] by simp
  have is_request: "listScheduledPlans parse_examples (always empty_list_200) 1000 1000
     (createLookerClient token_credentials 0)
     (Some \<lparr>user_id = Some ''42'', look_id = Some ''7'', dashboard_id = Some ''9''\<rparr>) =
     request parse_examples (always empty_list_200) 1000 1000
      (createLookerClient token_credentials 0) ''/scheduled_plans?user_id=42'' no_options"
    using plans [THEN conjunct2, THEN conjunct1] by (simp add: enc)
  show ?thesis
  proof (intro conjI)
    show "listScheduledPlans parse_examples (always empty_list_200) 1000 1000
       (createLookerClient token_credentials 0)
       (Some \<lparr>user_id = Some ''42'', look_id = Some ''7'', dashboard_id = Some ''9''\<rparr>) =
     listScheduledPlans parse_examples (always empty_list_200) 1000 1000
       (createLookerClient token_credentials 0)
       (Some \<lparr>user_id = Some ''42'', look_id = None, dashboard_id = None\<rparr>)"
      by (rule same)
    show "snd (snd (listScheduledPlans parse_examples (always empty_list_200) 1000 1000
       (createLookerClient token_credentials 0)
       (Some \<lparr>user_id = Some ''42'', look_id = Some ''7'', dashboard_id = Some ''9''\<rparr>))) =
     [(''https://x.looker.com/api/4.0/scheduled_plans?user_id=42'',
       \<lparr>method' = None,
        headers = Some [''Authorization'' \<mapsto> ''Bearer tok'', ''Content-Type'' \<mapsto> ''application/json''],
        body = None\<rparr>)]"
      unfolding is_request by (rule sent)
  qed
qed


section \<open>Paginated lists\<close>

lemma handle_response_result:
  "fst (handle_response P this r) = fst (handle_response P that r)"
  by (simp add: handle_response_def Let_def split: option.split)

lemma request_token_always:
  "fst (request P (always r) n n' (createLookerClient token_credentials t) e opts) =
   fst (handle_response P (createLookerClient token_credentials t) r)"
  using request_received(1) [OF received_token_always, of P r n n' t e opts]
        handle_response_result
          [of P "fst (snd (getAccessToken P (always r) n n' (createLookerClient token_credentials t)))"
              r "createLookerClient token_credentials t"]
  by simp

lemma list_paginated_array:
  assumes "fst (request P f n n' this
                  (path @ ''?'' @ URLSearchParams_toString (pagination_query params)) no_options) =
             Inr (Json (JArray xs))"
  shows "fst (list_paginated path P f n n' this params) =
      Inr \<lparr>items = Json (JArray xs),
           count = Some (length xs),
           hasMore = (int (length xs) =
                        (if truthy_int (Option.bind params limit)
                         then the (Option.bind params limit) else 100))\<rparr>"
proof -
  obtain res this' sent where req: "request P f n n' this
      (path @ ''?'' @ URLSearchParams_toString (pagination_query params)) no_options =
      (res, this', sent)"
    by (cases "request P f n n' this
      (path @ ''?'' @ URLSearchParams_toString (pagination_query params)) no_options") auto
  then have "res = Inr (Json (JArray xs))"
    using assms by simp
  then show ?thesis
    unfolding list_paginated_def req by simp
qed

text \<open>
  C10. When the response is a JSON array, \<open>listLooks\<close> (and \<open>listDashboards\<close>,
  \<open>listFolders\<close>, \<open>listUsers\<close>, which are the same function on other paths) returns
  the array as \<open>items\<close>, its length as \<open>count\<close>, and \<open>hasMore\<close> true exactly when
  the length equals the requested limit, or equals 100 when no limit was given: the
  fallback is 100, so a list of 20 items with no limit given has \<open>hasMore\<close> false. The
  requested limit is not 0: the callers of these functions pass a limit from 1 to 100
  (their schema is \<open>z.number().int().min(1).max(100).default(20)\<close>), and a limit of 0
  is not forwarded to the server either.
\<close>

theorem list_count_and_hasMore:
  assumes "fst (request P f n n' this
                  (path @ ''?'' @ URLSearchParams_toString (pagination_query params)) no_options) =
             Inr (Json (JArray xs))"
    and "Option.bind params limit \<noteq> Some 0"
  shows
   "fst (list_paginated path P f n n' this params) =
      Inr \<lparr>items = Json (JArray xs),
           count = Some (length xs),
           hasMore = (int (length xs) =
                        (case Option.bind params limit of None \<Rightarrow> 100 | Some l \<Rightarrow> l))\<rparr> \<and>
    (Option.bind params limit = None \<and> length xs = 20 \<longrightarrow>
       (\<exists>page. fst (list_paginated path P f n n' this params) = Inr page \<and> \<not> hasMore page)) \<and>
    listLooks = list_paginated ''/looks'' \<and>
    listDashboards = list_paginated ''/dashboards'' \<and>
    listFolders = list_paginated ''/folders'' \<and>
    listUsers = list_paginated ''/users''"
proof -
  have page: "fst (list_paginated path P f n n' this params) =
      Inr \<lparr>items = Json (JArray xs),
           count = Some (length xs),
           hasMore = (int (length xs) =
                        (case Option.bind params limit of None \<Rightarrow> 100 | Some l \<Rightarrow> l))\<rparr>"
    using list_paginated_array [OF assms(1)] assms(2)
    by (cases "Option.bind params limit") simp_all
  have twenty: "\<exists>page. fst (list_paginated path P f n n' this params) = Inr page \<and> \<not> hasMore page"
    if "Option.bind params limit = None" and "length xs = 20"
    using that by (simp add: page)
  show ?thesis
    using page twenty
    by (simp add: listLooks_def listDashboards_def listFolders_def listUsers_def)
qed

theorem list_count_and_hasMore_example:
  "fst (request parse_examples (always one_look_200) 1000 1000
          (createLookerClient token_credentials 0) ''/looks?limit=1'' no_options) =
     Inr (Json (JArray [JObject [(''id'', JString ''1'')]])) \<and>
   fst (listLooks parse_examples (always one_look_200) 1000 1000
          (createLookerClient token_credentials 0)
          (Some \<lparr>limit = Some 1, offset = None, fields' = None\<rparr>)) =
     Inr \<lparr>items = Json (JArray [JObject [(''id'', JString ''1'')]]), count = Some 1, hasMore = True\<rparr>"
proof -
  have r: "fst (request parse_examples (always one_look_200) 1000 1000
          (createLookerClient token_credentials 0) ''/looks?limit=1'' no_options) =
     Inr (Json (JArray [JObject [(''id'', JString ''1'')]]))"
    by (simp add: request_token_always handle_response_def one_look_200_def ok_def
          contentType_def parse_examples_values)
  show ?thesis
    using list_count_and_hasMore
            [of parse_examples "always one_look_200" 1000 1000
                "createLookerClient token_credentials 0" "''/looks''"
                "Some \<lparr>limit = Some 1, offset = None, fields' = None\<rparr>"
                "[JObject [(''id'', JString ''1'')]]"]
    by (simp add: pagination_query_limit_1 r listLooks_def)
qed


end
